theory Spec2Isabelle
  imports Complex_Main
begin

section \<open>The pre-commit configuration\<close>

text \<open>
  The file \<^verbatim>\<open>.pre-commit-config.yaml\<close> is a list \<^verbatim>\<open>repos\<close> of entries, each with the
  URL of a hook repository, the revision \<^verbatim>\<open>rev\<close> it is pinned to, and the hooks taken
  from it. A hook has an \<^verbatim>\<open>id\<close> and optional further keys; a key the file does not
  give is \<open>None\<close> (or the empty list for \<^verbatim>\<open>types\<close>).
\<close>

record hook =
  hook_id :: string
  hook_name :: "string option"
  description :: "string option"
  entry :: "string option"
  language :: "string option"
  language_version :: "string option"
  types :: "string list"
  files :: "string option"

record repo_entry =
  repo :: string
  rev :: string
  hooks :: "hook list"

definition bare_hook :: "string \<Rightarrow> hook" where
  "bare_hook i = \<lparr>hook_id = i, hook_name = None, description = None, entry = None,
     language = None, language_version = None, types = [], files = None\<rparr>"

definition pre_commit_config :: "repo_entry list" where
  "pre_commit_config =
    [\<lparr>repo = ''https://github.com/pre-commit/pre-commit-hooks'', rev = ''v4.0.1'',
       hooks = [bare_hook ''check-added-large-files'']\<rparr>,
     \<lparr>repo = ''https://github.com/kynan/nbstripout'', rev = ''0.4.0'',
       hooks = [\<lparr>hook_id = ''nbstripout'', hook_name = Some ''nbstripout'',
         description = Some ''nbstripout: strip output from Jupyter and IPython notebooks'',
         entry = Some ''nbstripout'', language = Some ''python'', language_version = None,
         types = [''jupyter''], files = None\<rparr>]\<rparr>,
     \<lparr>repo = ''https://github.com/psf/black'', rev = ''21.6b0'',
       hooks = [\<lparr>hook_id = ''black'', hook_name = Some ''black'',
         description = Some ''applies black formatter to .py files'',
         entry = Some ''black'', language = Some ''python'', language_version = None,
         types = [''python''], files = None\<rparr>]\<rparr>,
     \<lparr>repo = ''https://github.com/pycqa/flake8'', rev = ''3.9.2'',
       hooks = [bare_hook ''flake8'']\<rparr>,
     \<lparr>repo = ''https://github.com/tomcatling/black-nb'', rev = ''0.5.0'',
       hooks = [\<lparr>hook_id = ''black-nb'', hook_name = Some ''black-nb'',
         description = None,
         entry = Some ''black-nb'', language = Some ''python'',
         language_version = Some ''python3'',
         types = [], files = Some (CHR 0x5C # ''.ipynb$'')\<rparr>]\<rparr>]"

text \<open>The revisions under which a hook id is declared, in the order of the file.\<close>

definition hook_revs :: "repo_entry list \<Rightarrow> string \<Rightarrow> string list" where
  "hook_revs cfg i = map rev (filter (\<lambda>r. i \<in> set (map hook_id (hooks r))) cfg)"

text \<open>All hook ids of the configuration, in the order of the file.\<close>

definition hook_ids :: "repo_entry list \<Rightarrow> string list" where
  "hook_ids cfg = concat (map (\<lambda>r. map hook_id (hooks r)) cfg)"

section \<open>Chapters: notebooks and their code cells\<close>

text \<open>
  A chapter is a document of the book: a Jupyter notebook (a JSON list of cells) or a
  MyST markdown file with \<^verbatim>\<open>{code-cell}\<close> blocks. The code of a cell is kept as its
  Python syntax tree, with the constructors of Python's own grammar (module \<^verbatim>\<open>ast\<close>):
  only the node kinds that occur in the chapters are declared. Three names are changed
  because HOL uses them: \<^verbatim>\<open>List\<close> is \<open>ListLit\<close>, \<^verbatim>\<open>Not\<close> is \<open>NotOp\<close>, \<^verbatim>\<open>If\<close> is
  \<open>IfStmt\<close>; the statement \<^verbatim>\<open>Expr\<close> is \<open>ExprStmt\<close>. A float literal keeps its source
  text; a string keeps its UTF-8 bytes.
\<close>

datatype literal = Str string | Num int | FloatLit string | NoneConst | BoolConst bool

datatype operator = Add | Sub | Mult | Div | FloorDiv

datatype unaryop = USub | NotOp

datatype cmpop = Eq

datatype expr =
    Name string
  | Constant literal
  | Attribute expr string
  | Subscript expr expr
  | Call expr "expr list" "keyword list"
  | BinOp expr operator expr
  | UnaryOp unaryop expr
  | Compare expr cmpop expr
  | Tuple "expr list"
  | ListLit "expr list"
  | Dict "expr list" "expr list"
  | Slice "expr option" "expr option" "expr option"
  | Lambda "string list" expr
  | ListComp expr expr expr
  | JoinedStr "expr list"
  | FormattedValue expr "string option"
and keyword = Keyword string expr

text \<open>
  \<open>ListComp elt target iter\<close> is the comprehension \<^verbatim>\<open>[elt for target in iter]\<close>;
  \<open>Lambda params body\<close> is \<^verbatim>\<open>lambda params: body\<close>; \<open>Alias name asname\<close> is one
  imported name with its optional \<^verbatim>\<open>as\<close> name; \<open>FunctionDef name params defaults body\<close>
  is a \<^verbatim>\<open>def\<close>; \<open>For target iter body\<close> a loop; \<open>IfStmt test body orelse\<close> a
  conditional.
\<close>

datatype import_alias = Alias string "string option"

datatype stmt =
    Import "import_alias list"
  | ImportFrom string "import_alias list"
  | FunctionDef string "string list" "expr list" "stmt list"
  | Assign "expr list" expr
  | ExprStmt expr
  | For expr expr "stmt list"
  | IfStmt expr "stmt list" "stmt list"
  | Return expr

text \<open>
  A notebook cell is a markdown cell (its text plays no role here) or a code cell with
  its \<^verbatim>\<open>execution_count\<close> (\<open>None\<close> for JSON \<^verbatim>\<open>null\<close>), its list of \<^verbatim>\<open>outputs\<close> and its
  \<^verbatim>\<open>source\<close>. The \<^verbatim>\<open>metadata\<close> of every cell of the three notebooks is empty and is
  left out. An output is one of the four kinds of the notebook format.
\<close>

datatype cell_output = Stream string | DisplayData string | ExecuteResult string | ErrorOutput string

datatype cell =
    Markdown
  | Code (execution_count: "nat option") (outputs: "cell_output list") (source: "stmt list")

datatype document = Notebook "cell list" | MystMarkdown "stmt list list"

fun is_code :: "cell \<Rightarrow> bool" where
  "is_code Markdown = False"
| "is_code (Code ec outs src) = True"

fun cells :: "document \<Rightarrow> cell list" where
  "cells (Notebook cs) = cs"
| "cells (MystMarkdown cs) = []"

fun code_cells :: "document \<Rightarrow> stmt list list" where
  "code_cells (Notebook cs) = map source (filter is_code cs)"
| "code_cells (MystMarkdown cs) = cs"

subsection \<open>The code cells of the chapters\<close>

text \<open>
  The cells of the exploratory-data-analysis notebook
  (\<^verbatim>\<open>data-exploratory-analysis.ipynb\<close>), of the real-business-cycle notebook and of the
  time-series notebook (the source tree keeps these two after the hook list of
  \<^verbatim>\<open>.pre-commit-config.yaml\<close>), and the four \<^verbatim>\<open>{code-cell}\<close> blocks at the top level of
  \<^verbatim>\<open>_sources/common-plots.md\<close>. Each cell is given with its source. The number in a
  name is the index of the cell in its notebook, counted from 0 over markdown and code
  cells alike; for the markdown file it counts the code cells. An option line of a MyST
  cell (\<^verbatim>\<open>:tags:\<close>) is no code and is left out.
\<close>

text \<open>
  \<^verbatim>\<open>
  import pandas as pd
  import matplotlib.pyplot as plt
  import numpy as np
  from itertools import islice

  # Plot settings
  plt.style.use(
      "https://github.com/aeturrell/coding-for-economists/raw/main/plot_style.txt"
  )
  \<close>
\<close>

definition data_exploratory_analysis_cell_1 :: "stmt list" where
  "data_exploratory_analysis_cell_1 =
    [Import [Alias ''pandas'' (Some ''pd'')],
     Import [Alias ''matplotlib.pyplot'' (Some ''plt'')],
     Import [Alias ''numpy'' (Some ''np'')],
     ImportFrom ''itertools'' [Alias ''islice'' None],
     ExprStmt (Call (Attribute (Attribute (Name ''plt'') ''style'') ''use'') [(Constant (Str
       ''https://github.com/aeturrell/coding-for-economists/raw/main/plot_style.txt''))] [])]"

text \<open>
  \<^verbatim>\<open>
  df = pd.read_csv(
      "https://vincentarelbundock.github.io/Rdatasets/csv/Stat2Data/GrinnellHouses.csv",
      index_col=0,
  )
  df.head()
  \<close>
\<close>

definition data_exploratory_analysis_cell_3 :: "stmt list" where
  "data_exploratory_analysis_cell_3 =
    [Assign [(Name ''df'')] (Call (Attribute (Name ''pd'') ''read_csv'') [(Constant (Str
       ''https://vincentarelbundock.github.io/Rdatasets/csv/Stat2Data/GrinnellHouses.csv''))]
       [Keyword ''index_col'' (Constant (Num 0))]),
     ExprStmt (Call (Attribute (Name ''df'') ''head'') [] [])]"

text \<open>
  \<^verbatim>\<open>
  def convert_date_code_to_datetime(date):
      start_code = 16436
      return pd.to_datetime("01-01-2005") + pd.DateOffset(days=date - start_code)


  df["datetime"] = df["Date"].apply(convert_date_code_to_datetime)
  # Check the 'biggest' rows by datetime
  df.nlargest(5, columns=["datetime"])
  \<close>
\<close>

definition data_exploratory_analysis_cell_5 :: "stmt list" where
  "data_exploratory_analysis_cell_5 =
    [FunctionDef ''convert_date_code_to_datetime'' [''date''] [] [Assign [(Name
       ''start_code'')] (Constant (Num 16436)), Return (BinOp (Call (Attribute (Name ''pd'')
       ''to_datetime'') [(Constant (Str ''01-01-2005''))] []) Add (Call (Attribute (Name ''pd'')
       ''DateOffset'') [] [Keyword ''days'' (BinOp (Name ''date'') Sub (Name
       ''start_code''))]))],
     Assign [(Subscript (Name ''df'') (Constant (Str ''datetime'')))] (Call (Attribute
       (Subscript (Name ''df'') (Constant (Str ''Date''))) ''apply'') [(Name
       ''convert_date_code_to_datetime'')] []),
     ExprStmt (Call (Attribute (Name ''df'') ''nlargest'') [(Constant (Num 5))] [Keyword
       ''columns'' (ListLit [(Constant (Str ''datetime''))])])]"

text \<open>
  \<^verbatim>\<open>
  df.info()
  \<close>
\<close>

definition data_exploratory_analysis_cell_7 :: "stmt list" where
  "data_exploratory_analysis_cell_7 =
    [ExprStmt (Call (Attribute (Name ''df'') ''info'') [] [])]"

text \<open>
  \<^verbatim>\<open>
  df = df.assign(
      Address=df["Address"].astype("string"),
      Bedrooms=df["Bedrooms"].astype("category"),
      OrigPrice=df["OrigPrice"].astype(float),
      ListPrice=df["ListPrice"].astype(float),
      SalePrice=df["SalePrice"].astype(float),
  )
  df.info()
  \<close>
\<close>

definition data_exploratory_analysis_cell_9 :: "stmt list" where
  "data_exploratory_analysis_cell_9 =
    [Assign [(Name ''df'')] (Call (Attribute (Name ''df'') ''assign'') [] [Keyword ''Address''
       (Call (Attribute (Subscript (Name ''df'') (Constant (Str ''Address''))) ''astype'')
       [(Constant (Str ''string''))] []), Keyword ''Bedrooms'' (Call (Attribute (Subscript (Name
       ''df'') (Constant (Str ''Bedrooms''))) ''astype'') [(Constant (Str ''category''))] []),
       Keyword ''OrigPrice'' (Call (Attribute (Subscript (Name ''df'') (Constant (Str
       ''OrigPrice''))) ''astype'') [(Name ''float'')] []), Keyword ''ListPrice'' (Call
       (Attribute (Subscript (Name ''df'') (Constant (Str ''ListPrice''))) ''astype'') [(Name
       ''float'')] []), Keyword ''SalePrice'' (Call (Attribute (Subscript (Name ''df'')
       (Constant (Str ''SalePrice''))) ''astype'') [(Name ''float'')] [])]),
     ExprStmt (Call (Attribute (Name ''df'') ''info'') [] [])]"

text \<open>
  \<^verbatim>\<open>
  from dataprep.clean import clean_headers

  df = clean_headers(df, case="snake")
  df.columns
  \<close>
\<close>

definition data_exploratory_analysis_cell_11 :: "stmt list" where
  "data_exploratory_analysis_cell_11 =
    [ImportFrom ''dataprep.clean'' [Alias ''clean_headers'' None],
     Assign [(Name ''df'')] (Call (Name ''clean_headers'') [(Name ''df'')] [Keyword ''case''
       (Constant (Str ''snake''))]),
     ExprStmt (Attribute (Name ''df'') ''columns'')]"

text \<open>
  \<^verbatim>\<open>
  df.describe()
  \<close>
\<close>

definition data_exploratory_analysis_cell_14 :: "stmt list" where
  "data_exploratory_analysis_cell_14 =
    [ExprStmt (Call (Attribute (Name ''df'') ''describe'') [] [])]"

text \<open>
  \<^verbatim>\<open>
  sum_table = df.describe().round(1)
  sum_table
  \<close>
\<close>

definition data_exploratory_analysis_cell_16 :: "stmt list" where
  "data_exploratory_analysis_cell_16 =
    [Assign [(Name ''sum_table'')] (Call (Attribute (Call (Attribute (Name ''df'')
       ''describe'') [] []) ''round'') [(Constant (Num 1))] []),
     ExprStmt (Name ''sum_table'')]"

text \<open>
  \<^verbatim>\<open>
  sum_table = sum_table.T
  sum_table
  \<close>
\<close>

definition data_exploratory_analysis_cell_18 :: "stmt list" where
  "data_exploratory_analysis_cell_18 =
    [Assign [(Name ''sum_table'')] (Attribute (Name ''sum_table'') ''T''),
     ExprStmt (Name ''sum_table'')]"

text \<open>
  \<^verbatim>\<open>
  print(sum_table.to_string())
  \<close>
\<close>

definition data_exploratory_analysis_cell_20 :: "stmt list" where
  "data_exploratory_analysis_cell_20 =
    [ExprStmt (Call (Name ''print'') [(Call (Attribute (Name ''sum_table'') ''to_string'') []
       [])] [])]"

text \<open>
  \<^verbatim>\<open>
  print(sum_table.to_markdown())
  \<close>
\<close>

definition data_exploratory_analysis_cell_22 :: "stmt list" where
  "data_exploratory_analysis_cell_22 =
    [ExprStmt (Call (Name ''print'') [(Call (Attribute (Name ''sum_table'') ''to_markdown'')
       [] [])] [])]"

text \<open>
  \<^verbatim>\<open>
  print(sum_table.head(3).to_html())
  \<close>
\<close>

definition data_exploratory_analysis_cell_24 :: "stmt list" where
  "data_exploratory_analysis_cell_24 =
    [ExprStmt (Call (Name ''print'') [(Call (Attribute (Call (Attribute (Name ''sum_table'')
       ''head'') [(Constant (Num 3))] []) ''to_html'') [] [])] [])]"

text \<open>
  \<^verbatim>\<open>
  print(sum_table.to_latex(caption="Summary stats from EDA"))
  \<close>
\<close>

definition data_exploratory_analysis_cell_26 :: "stmt list" where
  "data_exploratory_analysis_cell_26 =
    [ExprStmt (Call (Name ''print'') [(Call (Attribute (Name ''sum_table'') ''to_latex'') []
       [Keyword ''caption'' (Constant (Str ''Summary stats from EDA''))])] [])]"

text \<open>
  \<^verbatim>\<open>
  (
      df.groupby(["year_sold", "bedrooms"])
      .mean()["sale_price"]
      .unstack()
      .apply(lambda x: x / 1e3)
      .fillna("-")
      .style.format(precision=0)
      .set_caption("Sale price (thousands)")
  )
  \<close>
\<close>

definition data_exploratory_analysis_cell_28 :: "stmt list" where
  "data_exploratory_analysis_cell_28 =
    [ExprStmt (Call (Attribute (Call (Attribute (Attribute (Call (Attribute (Call (Attribute
       (Call (Attribute (Subscript (Call (Attribute (Call (Attribute (Name ''df'') ''groupby'')
       [(ListLit [(Constant (Str ''year_sold'')), (Constant (Str ''bedrooms''))])] []) ''mean'')
       [] []) (Constant (Str ''sale_price''))) ''unstack'') [] []) ''apply'') [(Lambda [''x'']
       (BinOp (Name ''x'') Div (Constant (FloatLit ''1e3''))))] []) ''fillna'') [(Constant (Str
       ''-''))] []) ''style'') ''format'') [] [Keyword ''precision'' (Constant (Num 0))])
       ''set_caption'') [(Constant (Str ''Sale price (thousands)''))] [])]"

text \<open>
  \<^verbatim>\<open>
  pd.crosstab(df["bedrooms"], df["year_sold"]).style.background_gradient(cmap="plasma")
  \<close>
\<close>

definition data_exploratory_analysis_cell_30 :: "stmt list" where
  "data_exploratory_analysis_cell_30 =
    [ExprStmt (Call (Attribute (Attribute (Call (Attribute (Name ''pd'') ''crosstab'')
       [(Subscript (Name ''df'') (Constant (Str ''bedrooms''))), (Subscript (Name ''df'')
       (Constant (Str ''year_sold'')))] []) ''style'') ''background_gradient'') [] [Keyword
       ''cmap'' (Constant (Str ''plasma''))])]"

text \<open>
  \<^verbatim>\<open>
  (
      df.iloc[:10, -6:-1]
      .style.format(precision=0)
      .bar(subset=["cost_per_sq_ft", "sale_price"], color="#d65f5f")
  )
  \<close>
\<close>

definition data_exploratory_analysis_cell_32 :: "stmt list" where
  "data_exploratory_analysis_cell_32 =
    [ExprStmt (Call (Attribute (Call (Attribute (Attribute (Subscript (Attribute (Name ''df'')
       ''iloc'') (Tuple [(Slice None (Some (Constant (Num 10))) None), (Slice (Some (UnaryOp
       USub (Constant (Num 6)))) (Some (UnaryOp USub (Constant (Num 1)))) None)])) ''style'')
       ''format'') [] [Keyword ''precision'' (Constant (Num 0))]) ''bar'') [] [Keyword
       ''subset'' (ListLit [(Constant (Str ''cost_per_sq_ft'')), (Constant (Str
       ''sale_price''))]), Keyword ''color'' (Constant (Str ''#d65f5f''))])]"

text \<open>
  \<^verbatim>\<open>
  df.groupby(["bedrooms"])[["splp_pct"]].mean().style.format("{:.0f}%")
  \<close>
\<close>

definition data_exploratory_analysis_cell_34 :: "stmt list" where
  "data_exploratory_analysis_cell_34 =
    [ExprStmt (Call (Attribute (Attribute (Call (Attribute (Subscript (Call (Attribute (Name
       ''df'') ''groupby'') [(ListLit [(Constant (Str ''bedrooms''))])] []) (ListLit [(Constant
       (Str ''splp_pct''))])) ''mean'') [] []) ''style'') ''format'') [(Constant (Str
       ''{:.0f}%''))] [])]"

text \<open>
  \<^verbatim>\<open>
  df.iloc[:10, -6:-1].style.highlight_max().format("{:.0f}")
  \<close>
\<close>

definition data_exploratory_analysis_cell_36 :: "stmt list" where
  "data_exploratory_analysis_cell_36 =
    [ExprStmt (Call (Attribute (Call (Attribute (Attribute (Subscript (Attribute (Name ''df'')
       ''iloc'') (Tuple [(Slice None (Some (Constant (Num 10))) None), (Slice (Some (UnaryOp
       USub (Constant (Num 6)))) (Some (UnaryOp USub (Constant (Num 1)))) None)])) ''style'')
       ''highlight_max'') [] []) ''format'') [(Constant (Str ''{:.0f}''))] [])]"

text \<open>
  \<^verbatim>\<open>
  (
      df.set_index("datetime")
      .groupby(pd.Grouper(freq="3M"))["sale_price"]
      .mean()
      .apply(lambda x: x / 1e3)
      .plot(
          title="House sales in Grinnell, Iowa",
          xlabel="",
          ylabel="Mean nominal sale price (000s USD)",
      )
  );
  \<close>
\<close>

definition data_exploratory_analysis_cell_39 :: "stmt list" where
  "data_exploratory_analysis_cell_39 =
    [ExprStmt (Call (Attribute (Call (Attribute (Call (Attribute (Subscript (Call (Attribute
       (Call (Attribute (Name ''df'') ''set_index'') [(Constant (Str ''datetime''))] [])
       ''groupby'') [(Call (Attribute (Name ''pd'') ''Grouper'') [] [Keyword ''freq'' (Constant
       (Str ''3M''))])] []) (Constant (Str ''sale_price''))) ''mean'') [] []) ''apply'')
       [(Lambda [''x''] (BinOp (Name ''x'') Div (Constant (FloatLit ''1e3''))))] []) ''plot'')
       [] [Keyword ''title'' (Constant (Str ''House sales in Grinnell, Iowa'')), Keyword
       ''xlabel'' (Constant (Str [])), Keyword ''ylabel'' (Constant (Str
       ''Mean nominal sale price (000s USD)''))])]"

text \<open>
  \<^verbatim>\<open>
  (
      df.set_index("datetime")
      .groupby(pd.Grouper(freq="3M"))[["orig_price", "list_price", "sale_price"]]
      .mean()
      .apply(lambda x: x / 1e3)
      .plot(style=["-", ":", "-."])
  );
  \<close>
\<close>

definition data_exploratory_analysis_cell_41 :: "stmt list" where
  "data_exploratory_analysis_cell_41 =
    [ExprStmt (Call (Attribute (Call (Attribute (Call (Attribute (Subscript (Call (Attribute
       (Call (Attribute (Name ''df'') ''set_index'') [(Constant (Str ''datetime''))] [])
       ''groupby'') [(Call (Attribute (Name ''pd'') ''Grouper'') [] [Keyword ''freq'' (Constant
       (Str ''3M''))])] []) (ListLit [(Constant (Str ''orig_price'')), (Constant (Str
       ''list_price'')), (Constant (Str ''sale_price''))])) ''mean'') [] []) ''apply'') [(Lambda
       [''x''] (BinOp (Name ''x'') Div (Constant (FloatLit ''1e3''))))] []) ''plot'') []
       [Keyword ''style'' (ListLit [(Constant (Str ''-'')), (Constant (Str '':'')), (Constant
       (Str ''-.''))])])]"

text \<open>
  \<^verbatim>\<open>
  df.square_feet.plot.kde(ylim=(0, None), xlim=(0, None));
  \<close>
\<close>

definition data_exploratory_analysis_cell_43 :: "stmt list" where
  "data_exploratory_analysis_cell_43 =
    [ExprStmt (Call (Attribute (Attribute (Attribute (Name ''df'') ''square_feet'') ''plot'')
       ''kde'') [] [Keyword ''ylim'' (Tuple [(Constant (Num 0)), (Constant (NoneConst))]),
       Keyword ''xlim'' (Tuple [(Constant (Num 0)), (Constant (NoneConst))])])]"

text \<open>
  \<^verbatim>\<open>
  df.value_counts("bedrooms").sort_index().plot.bar(title="Counts", rot=0);
  \<close>
\<close>

definition data_exploratory_analysis_cell_45 :: "stmt list" where
  "data_exploratory_analysis_cell_45 =
    [ExprStmt (Call (Attribute (Attribute (Call (Attribute (Call (Attribute (Name ''df'')
       ''value_counts'') [(Constant (Str ''bedrooms''))] []) ''sort_index'') [] []) ''plot'')
       ''bar'') [] [Keyword ''title'' (Constant (Str ''Counts'')), Keyword ''rot'' (Constant
       (Num 0))])]"

text \<open>
  \<^verbatim>\<open>
  df["year_built"].plot.hist(bins=30, title="Year of construction");
  \<close>
\<close>

definition data_exploratory_analysis_cell_47 :: "stmt list" where
  "data_exploratory_analysis_cell_47 =
    [ExprStmt (Call (Attribute (Attribute (Subscript (Name ''df'') (Constant (Str
       ''year_built''))) ''plot'') ''hist'') [] [Keyword ''bins'' (Constant (Num 30)), Keyword
       ''title'' (Constant (Str ''Year of construction''))])]"

text \<open>
  \<^verbatim>\<open>
  (df[["orig_price", "list_price", "sale_price"]].plot.box());
  \<close>
\<close>

definition data_exploratory_analysis_cell_49 :: "stmt list" where
  "data_exploratory_analysis_cell_49 =
    [ExprStmt (Call (Attribute (Attribute (Subscript (Name ''df'') (ListLit [(Constant (Str
       ''orig_price'')), (Constant (Str ''list_price'')), (Constant (Str ''sale_price''))]))
       ''plot'') ''box'') [] [])]"

text \<open>
  \<^verbatim>\<open>
  df["class_ln_price"] = pd.cut(np.log(df["orig_price"]), bins=4, precision=0)

  (
      df.set_index("datetime")
      .groupby([pd.Grouper(freq="A"), "class_ln_price"])["class_ln_price"]
      .count()
      .unstack()
      .plot.area(ylabel="Count")
  );
  \<close>
\<close>

definition data_exploratory_analysis_cell_50 :: "stmt list" where
  "data_exploratory_analysis_cell_50 =
    [Assign [(Subscript (Name ''df'') (Constant (Str ''class_ln_price'')))] (Call (Attribute
       (Name ''pd'') ''cut'') [(Call (Attribute (Name ''np'') ''log'') [(Subscript (Name ''df'')
       (Constant (Str ''orig_price'')))] [])] [Keyword ''bins'' (Constant (Num 4)), Keyword
       ''precision'' (Constant (Num 0))]),
     ExprStmt (Call (Attribute (Attribute (Call (Attribute (Call (Attribute (Subscript (Call
       (Attribute (Call (Attribute (Name ''df'') ''set_index'') [(Constant (Str ''datetime''))]
       []) ''groupby'') [(ListLit [(Call (Attribute (Name ''pd'') ''Grouper'') [] [Keyword
       ''freq'' (Constant (Str ''A''))]), (Constant (Str ''class_ln_price''))])] []) (Constant
       (Str ''class_ln_price''))) ''count'') [] []) ''unstack'') [] []) ''plot'') ''area'') []
       [Keyword ''ylabel'' (Constant (Str ''Count''))])]"

text \<open>
  \<^verbatim>\<open>
  df.plot.scatter(x="square_feet", y="sale_price", alpha=0.7, ylim=(0, None));
  \<close>
\<close>

definition data_exploratory_analysis_cell_52 :: "stmt list" where
  "data_exploratory_analysis_cell_52 =
    [ExprStmt (Call (Attribute (Attribute (Name ''df'') ''plot'') ''scatter'') [] [Keyword
       ''x'' (Constant (Str ''square_feet'')), Keyword ''y'' (Constant (Str ''sale_price'')),
       Keyword ''alpha'' (Constant (FloatLit ''0.7'')), Keyword ''ylim'' (Tuple [(Constant (Num
       0)), (Constant (NoneConst))])])]"

text \<open>
  \<^verbatim>\<open>
  df.plot.hexbin(
      y="list_price",
      x="splp_pct",
      gridsize=10,
      cmap="inferno_r",
      C="cost_per_sq_ft",
      sharex=False,
  );
  \<close>
\<close>

definition data_exploratory_analysis_cell_54 :: "stmt list" where
  "data_exploratory_analysis_cell_54 =
    [ExprStmt (Call (Attribute (Attribute (Name ''df'') ''plot'') ''hexbin'') [] [Keyword
       ''y'' (Constant (Str ''list_price'')), Keyword ''x'' (Constant (Str ''splp_pct'')),
       Keyword ''gridsize'' (Constant (Num 10)), Keyword ''cmap'' (Constant (Str
       ''inferno_r'')), Keyword ''C'' (Constant (Str ''cost_per_sq_ft'')), Keyword ''sharex''
       (Constant (BoolConst False))])]"

text \<open>
  \<^verbatim>\<open>
  from pandas_profiling import ProfileReport


  profile = ProfileReport(
      df, minimal=True, title="Profiling Report: Grinnell House Sales"
  )
  profile.to_notebook_iframe()
  \<close>
\<close>

definition data_exploratory_analysis_cell_56 :: "stmt list" where
  "data_exploratory_analysis_cell_56 =
    [ImportFrom ''pandas_profiling'' [Alias ''ProfileReport'' None],
     Assign [(Name ''profile'')] (Call (Name ''ProfileReport'') [(Name ''df'')] [Keyword
       ''minimal'' (Constant (BoolConst True)), Keyword ''title'' (Constant (Str
       ''Profiling Report: Grinnell House Sales''))]),
     ExprStmt (Call (Attribute (Name ''profile'') ''to_notebook_iframe'') [] [])]"

text \<open>
  \<^verbatim>\<open>
  from dataprep.eda import create_report

  report = create_report(df.iloc[:, 2:-1])
  \<close>
\<close>

definition data_exploratory_analysis_cell_59 :: "stmt list" where
  "data_exploratory_analysis_cell_59 =
    [ImportFrom ''dataprep.eda'' [Alias ''create_report'' None],
     Assign [(Name ''report'')] (Call (Name ''create_report'') [(Subscript (Attribute (Name
       ''df'') ''iloc'') (Tuple [(Slice None None None), (Slice (Some (Constant (Num 2))) (Some
       (UnaryOp USub (Constant (Num 1)))) None)]))] [])]"

text \<open>
  \<^verbatim>\<open>
  from IPython.core.display import display


  display(report)
  \<close>
\<close>

definition data_exploratory_analysis_cell_60 :: "stmt list" where
  "data_exploratory_analysis_cell_60 =
    [ImportFrom ''IPython.core.display'' [Alias ''display'' None],
     ExprStmt (Call (Name ''display'') [(Name ''report'')] [])]"

text \<open>
  \<^verbatim>\<open>
  import numpy as np
  import matplotlib.pyplot as plt
  import statsmodels.formula.api as smf
  from sympy import *
  from numpy.random import Generator, PCG64

  # Set max rows displayed for readability
  pd.set_option("display.max_rows", 6)
  # Plot settings
  plt.style.use(
      "https://github.com/aeturrell/coding-for-economists/raw/main/plot_style.txt"
  )
  # Set seed for random numbers
  seed_for_prng = 78557
  prng = Generator(PCG64(seed_for_prng))
  \<close>
\<close>

definition rbc_cell_2 :: "stmt list" where
  "rbc_cell_2 =
    [Import [Alias ''numpy'' (Some ''np'')],
     Import [Alias ''matplotlib.pyplot'' (Some ''plt'')],
     Import [Alias ''statsmodels.formula.api'' (Some ''smf'')],
     ImportFrom ''sympy'' [Alias ''*'' None],
     ImportFrom ''numpy.random'' [Alias ''Generator'' None, Alias ''PCG64'' None],
     ExprStmt (Call (Attribute (Name ''pd'') ''set_option'') [(Constant (Str
       ''display.max_rows'')), (Constant (Num 6))] []),
     ExprStmt (Call (Attribute (Attribute (Name ''plt'') ''style'') ''use'') [(Constant (Str
       ''https://github.com/aeturrell/coding-for-economists/raw/main/plot_style.txt''))] []),
     Assign [(Name ''seed_for_prng'')] (Constant (Num 78557)),
     Assign [(Name ''prng'')] (Call (Name ''Generator'') [(Call (Name ''PCG64'') [(Name
       ''seed_for_prng'')] [])] [])]"

text \<open>
  \<^verbatim>\<open>
  import numpy as np
  import pandas as pd
  import statsmodels.api as sm
  from statsmodels.graphics import tsaplots
  from rich import inspect
  from numpy.random import Generator, PCG64
  import matplotlib.pyplot as plt

  # Plot settings
  plt.style.use(
      "https://github.com/aeturrell/coding-for-economists/raw/main/plot_style.txt"
  )
  # Set max rows displayed for readability
  pd.set_option("display.max_rows", 6)

  # Set seed for random numbers
  seed_for_prng = 78557
  prng = Generator(PCG64(seed_for_prng))
  \<close>
\<close>

definition time_series_cell_1 :: "stmt list" where
  "time_series_cell_1 =
    [Import [Alias ''numpy'' (Some ''np'')],
     Import [Alias ''pandas'' (Some ''pd'')],
     Import [Alias ''statsmodels.api'' (Some ''sm'')],
     ImportFrom ''statsmodels.graphics'' [Alias ''tsaplots'' None],
     ImportFrom ''rich'' [Alias ''inspect'' None],
     ImportFrom ''numpy.random'' [Alias ''Generator'' None, Alias ''PCG64'' None],
     Import [Alias ''matplotlib.pyplot'' (Some ''plt'')],
     ExprStmt (Call (Attribute (Attribute (Name ''plt'') ''style'') ''use'') [(Constant (Str
       ''https://github.com/aeturrell/coding-for-economists/raw/main/plot_style.txt''))] []),
     ExprStmt (Call (Attribute (Name ''pd'') ''set_option'') [(Constant (Str
       ''display.max_rows'')), (Constant (Num 6))] []),
     Assign [(Name ''seed_for_prng'')] (Constant (Num 78557)),
     Assign [(Name ''prng'')] (Call (Name ''Generator'') [(Call (Name ''PCG64'') [(Name
       ''seed_for_prng'')] [])] [])]"

text \<open>
  \<^verbatim>\<open>
  date = pd.to_datetime("16th of February, 2020")
  inspect(date)
  \<close>
\<close>

definition time_series_cell_3 :: "stmt list" where
  "time_series_cell_3 =
    [Assign [(Name ''date'')] (Call (Attribute (Name ''pd'') ''to_datetime'') [(Constant (Str
       ''16th of February, 2020''))] []),
     ExprStmt (Call (Name ''inspect'') [(Name ''date'')] [])]"

text \<open>
  \<^verbatim>\<open>
  date + pd.to_timedelta(np.arange(12), "D")
  \<close>
\<close>

definition time_series_cell_6 :: "stmt list" where
  "time_series_cell_6 =
    [ExprStmt (BinOp (Name ''date'') Add (Call (Attribute (Name ''pd'') ''to_timedelta'')
       [(Call (Attribute (Name ''np'') ''arange'') [(Constant (Num 12))] []), (Constant (Str
       ''D''))] []))]"

text \<open>
  \<^verbatim>\<open>
  pd.date_range(start="2018/1/1", end="2018/1/8")
  \<close>
\<close>

definition time_series_cell_8 :: "stmt list" where
  "time_series_cell_8 =
    [ExprStmt (Call (Attribute (Name ''pd'') ''date_range'') [] [Keyword ''start'' (Constant
       (Str ''2018/1/1'')), Keyword ''end'' (Constant (Str ''2018/1/8''))])]"

text \<open>
  \<^verbatim>\<open>
  pd.date_range("2018-01-01", periods=3, freq="H")
  \<close>
\<close>

definition time_series_cell_10 :: "stmt list" where
  "time_series_cell_10 =
    [ExprStmt (Call (Attribute (Name ''pd'') ''date_range'') [(Constant (Str ''2018-01-01''))]
       [Keyword ''periods'' (Constant (Num 3)), Keyword ''freq'' (Constant (Str ''H''))])]"

text \<open>
  \<^verbatim>\<open>
  dti = pd.date_range("2018-01-01", periods=3, freq="H").tz_localize("UTC")
  dti.tz_convert("US/Pacific")
  \<close>
\<close>

definition time_series_cell_12 :: "stmt list" where
  "time_series_cell_12 =
    [Assign [(Name ''dti'')] (Call (Attribute (Call (Attribute (Name ''pd'') ''date_range'')
       [(Constant (Str ''2018-01-01''))] [Keyword ''periods'' (Constant (Num 3)), Keyword
       ''freq'' (Constant (Str ''H''))]) ''tz_localize'') [(Constant (Str ''UTC''))] []),
     ExprStmt (Call (Attribute (Name ''dti'') ''tz_convert'') [(Constant (Str
       ''US/Pacific''))] [])]"

text \<open>
  \<^verbatim>\<open>
  import requests

  url = "https://api.ons.gov.uk/timeseries/JP9P/dataset/UNEM/data"

  # Get the data from the ONS API:
  df = pd.DataFrame(pd.json_normalize(requests.get(url).json()["months"]))
  df["value"] = pd.to_numeric(df["value"])
  df = df[["date", "value"]]
  df = df.rename(columns={"value": "Vacancies (ICT), thousands"})
  df.head()
  \<close>
\<close>

definition time_series_cell_14 :: "stmt list" where
  "time_series_cell_14 =
    [Import [Alias ''requests'' None],
     Assign [(Name ''url'')] (Constant (Str
       ''https://api.ons.gov.uk/timeseries/JP9P/dataset/UNEM/data'')),
     Assign [(Name ''df'')] (Call (Attribute (Name ''pd'') ''DataFrame'') [(Call (Attribute
       (Name ''pd'') ''json_normalize'') [(Subscript (Call (Attribute (Call (Attribute (Name
       ''requests'') ''get'') [(Name ''url'')] []) ''json'') [] []) (Constant (Str
       ''months'')))] [])] []),
     Assign [(Subscript (Name ''df'') (Constant (Str ''value'')))] (Call (Attribute (Name
       ''pd'') ''to_numeric'') [(Subscript (Name ''df'') (Constant (Str ''value'')))] []),
     Assign [(Name ''df'')] (Subscript (Name ''df'') (ListLit [(Constant (Str ''date'')),
       (Constant (Str ''value''))])),
     Assign [(Name ''df'')] (Call (Attribute (Name ''df'') ''rename'') [] [Keyword ''columns''
       (Dict [(Constant (Str ''value''))] [(Constant (Str ''Vacancies (ICT), thousands''))])]),
     ExprStmt (Call (Attribute (Name ''df'') ''head'') [] [])]"

text \<open>
  \<^verbatim>\<open>
  df.info()
  \<close>
\<close>

definition time_series_cell_16 :: "stmt list" where
  "time_series_cell_16 =
    [ExprStmt (Call (Attribute (Name ''df'') ''info'') [] [])]"

text \<open>
  \<^verbatim>\<open>
  df["date"] = pd.to_datetime(df["date"])
  df["date"].head()
  \<close>
\<close>

definition time_series_cell_18 :: "stmt list" where
  "time_series_cell_18 =
    [Assign [(Subscript (Name ''df'') (Constant (Str ''date'')))] (Call (Attribute (Name
       ''pd'') ''to_datetime'') [(Subscript (Name ''df'') (Constant (Str ''date'')))] []),
     ExprStmt (Call (Attribute (Subscript (Name ''df'') (Constant (Str ''date''))) ''head'')
       [] [])]"

text \<open>
  \<^verbatim>\<open>
  small_df = pd.DataFrame({"date": ["1, '19, 22", "1, '19, 23"], "values": ["1", "2"]})
  small_df["date"]
  \<close>
\<close>

definition time_series_cell_20 :: "stmt list" where
  "time_series_cell_20 =
    [Assign [(Name ''small_df'')] (Call (Attribute (Name ''pd'') ''DataFrame'') [(Dict
       [(Constant (Str ''date'')), (Constant (Str ''values''))] [(ListLit [(Constant (Str
       (''1, '' @ [CHR 0x27] @ ''19, 22''))), (Constant (Str (''1, '' @ [CHR 0x27] @
       ''19, 23'')))]), (ListLit [(Constant (Str ''1'')), (Constant (Str ''2''))])])] []),
     ExprStmt (Subscript (Name ''small_df'') (Constant (Str ''date'')))]"

text \<open>
  \<^verbatim>\<open>
  pd.to_datetime(small_df["date"], format="%m, '%y, %d")
  \<close>
\<close>

definition time_series_cell_22 :: "stmt list" where
  "time_series_cell_22 =
    [ExprStmt (Call (Attribute (Name ''pd'') ''to_datetime'') [(Subscript (Name ''small_df'')
       (Constant (Str ''date'')))] [Keyword ''format'' (Constant (Str (''%m, '' @ [CHR 0x27] @
       ''%y, %d'')))])]"

text \<open>
  \<^verbatim>\<open>
  df["date"] = df["date"] + pd.offsets.MonthEnd()
  df.head()
  \<close>
\<close>

definition time_series_cell_24 :: "stmt list" where
  "time_series_cell_24 =
    [Assign [(Subscript (Name ''df'') (Constant (Str ''date'')))] (BinOp (Subscript (Name
       ''df'') (Constant (Str ''date''))) Add (Call (Attribute (Attribute (Name ''pd'')
       ''offsets'') ''MonthEnd'') [] [])),
     ExprStmt (Call (Attribute (Name ''df'') ''head'') [] [])]"

text \<open>
  \<^verbatim>\<open>
  df = df.set_index("date")
  df.head()
  \<close>
\<close>

definition time_series_cell_27 :: "stmt list" where
  "time_series_cell_27 =
    [Assign [(Name ''df'')] (Call (Attribute (Name ''df'') ''set_index'') [(Constant (Str
       ''date''))] []),
     ExprStmt (Call (Attribute (Name ''df'') ''head'') [] [])]"

text \<open>
  \<^verbatim>\<open>
  df.index[:5]
  \<close>
\<close>

definition time_series_cell_29 :: "stmt list" where
  "time_series_cell_29 =
    [ExprStmt (Subscript (Attribute (Name ''df'') ''index'') (Slice None (Some (Constant (Num
       5))) None))]"

text \<open>
  \<^verbatim>\<open>
  df = df.asfreq("M")
  df.index[:5]
  \<close>
\<close>

definition time_series_cell_31 :: "stmt list" where
  "time_series_cell_31 =
    [Assign [(Name ''df'')] (Call (Attribute (Name ''df'') ''asfreq'') [(Constant (Str
       ''M''))] []),
     ExprStmt (Subscript (Attribute (Name ''df'') ''index'') (Slice None (Some (Constant (Num
       5))) None))]"

text \<open>
  \<^verbatim>\<open>
  df.plot();
  \<close>
\<close>

definition time_series_cell_34 :: "stmt list" where
  "time_series_cell_34 =
    [ExprStmt (Call (Attribute (Name ''df'') ''plot'') [] [])]"

text \<open>
  \<^verbatim>\<open>
  df.resample("A").mean()
  \<close>
\<close>

definition time_series_cell_36 :: "stmt list" where
  "time_series_cell_36 =
    [ExprStmt (Call (Attribute (Call (Attribute (Name ''df'') ''resample'') [(Constant (Str
       ''A''))] []) ''mean'') [] [])]"

text \<open>
  \<^verbatim>\<open>
  df.resample("5A").agg(["mean", "std"]).head()
  \<close>
\<close>

definition time_series_cell_38 :: "stmt list" where
  "time_series_cell_38 =
    [ExprStmt (Call (Attribute (Call (Attribute (Call (Attribute (Name ''df'') ''resample'')
       [(Constant (Str ''5A''))] []) ''agg'') [(ListLit [(Constant (Str ''mean'')), (Constant
       (Str ''std''))])] []) ''head'') [] [])]"

text \<open>
  \<^verbatim>\<open>
  df.resample("D").asfreq()
  \<close>
\<close>

definition time_series_cell_40 :: "stmt list" where
  "time_series_cell_40 =
    [ExprStmt (Call (Attribute (Call (Attribute (Name ''df'') ''resample'') [(Constant (Str
       ''D''))] []) ''asfreq'') [] [])]"

text \<open>
  \<^verbatim>\<open>
  df.resample("D").interpolate(method="linear", limit_direction="forward", limit=3)[:6]
  \<close>
\<close>

definition time_series_cell_42 :: "stmt list" where
  "time_series_cell_42 =
    [ExprStmt (Subscript (Call (Attribute (Call (Attribute (Name ''df'') ''resample'')
       [(Constant (Str ''D''))] []) ''interpolate'') [] [Keyword ''method'' (Constant (Str
       ''linear'')), Keyword ''limit_direction'' (Constant (Str ''forward'')), Keyword ''limit''
       (Constant (Num 3))]) (Slice None (Some (Constant (Num 6))) None))]"

text \<open>
  \<^verbatim>\<open>
  # Get stock market data
  import pandas_datareader as web

  xf = web.DataReader("AAPL", "stooq", start="2017-01-01", end="2019-06-01")
  xf = xf.sort_index()
  \<close>
\<close>

definition time_series_cell_44 :: "stmt list" where
  "time_series_cell_44 =
    [Import [Alias ''pandas_datareader'' (Some ''web'')],
     Assign [(Name ''xf'')] (Call (Attribute (Name ''web'') ''DataReader'') [(Constant (Str
       ''AAPL'')), (Constant (Str ''stooq''))] [Keyword ''start'' (Constant (Str
       ''2017-01-01'')), Keyword ''end'' (Constant (Str ''2019-06-01''))]),
     Assign [(Name ''xf'')] (Call (Attribute (Name ''xf'') ''sort_index'') [] [])]"

text \<open>
  \<^verbatim>\<open>
  fig, ax = plt.subplots()
  data = xf.iloc[:10, 3]
  cycle = ax._get_lines.prop_cycler

  data.asfreq("D").plot(ax=ax, marker="o", linestyle="None", zorder=3)
  data.asfreq("D", method="bfill").plot(
      ax=ax, style="-.o", lw=1, color=next(cycle)["color"]
  )
  data.asfreq("D", method="ffill").plot(
      ax=ax, style="--o", lw=1, color=next(cycle)["color"]
  )
  ax.set_ylabel("Close ($)")
  ax.legend(["original", "back-fill", "forward-fill"]);
  \<close>
\<close>

definition time_series_cell_45 :: "stmt list" where
  "time_series_cell_45 =
    [Assign [(Tuple [(Name ''fig''), (Name ''ax'')])] (Call (Attribute (Name ''plt'')
       ''subplots'') [] []),
     Assign [(Name ''data'')] (Subscript (Attribute (Name ''xf'') ''iloc'') (Tuple [(Slice
       None (Some (Constant (Num 10))) None), (Constant (Num 3))])),
     Assign [(Name ''cycle'')] (Attribute (Attribute (Name ''ax'') ''_get_lines'')
       ''prop_cycler''),
     ExprStmt (Call (Attribute (Call (Attribute (Name ''data'') ''asfreq'') [(Constant (Str
       ''D''))] []) ''plot'') [] [Keyword ''ax'' (Name ''ax''), Keyword ''marker'' (Constant
       (Str ''o'')), Keyword ''linestyle'' (Constant (Str ''None'')), Keyword ''zorder''
       (Constant (Num 3))]),
     ExprStmt (Call (Attribute (Call (Attribute (Name ''data'') ''asfreq'') [(Constant (Str
       ''D''))] [Keyword ''method'' (Constant (Str ''bfill''))]) ''plot'') [] [Keyword ''ax''
       (Name ''ax''), Keyword ''style'' (Constant (Str ''-.o'')), Keyword ''lw'' (Constant (Num
       1)), Keyword ''color'' (Subscript (Call (Name ''next'') [(Name ''cycle'')] []) (Constant
       (Str ''color'')))]),
     ExprStmt (Call (Attribute (Call (Attribute (Name ''data'') ''asfreq'') [(Constant (Str
       ''D''))] [Keyword ''method'' (Constant (Str ''ffill''))]) ''plot'') [] [Keyword ''ax''
       (Name ''ax''), Keyword ''style'' (Constant (Str ''--o'')), Keyword ''lw'' (Constant (Num
       1)), Keyword ''color'' (Subscript (Call (Name ''next'') [(Name ''cycle'')] []) (Constant
       (Str ''color'')))]),
     ExprStmt (Call (Attribute (Name ''ax'') ''set_ylabel'') [(Constant (Str ''Close ($)''))]
       []),
     ExprStmt (Call (Attribute (Name ''ax'') ''legend'') [(ListLit [(Constant (Str
       ''original'')), (Constant (Str ''back-fill'')), (Constant (Str ''forward-fill''))])] [])]"

text \<open>
  \<^verbatim>\<open>
  df.rolling(2).mean()
  \<close>
\<close>

definition time_series_cell_47 :: "stmt list" where
  "time_series_cell_47 =
    [ExprStmt (Call (Attribute (Call (Attribute (Name ''df'') ''rolling'') [(Constant (Num
       2))] []) ''mean'') [] [])]"

text \<open>
  \<^verbatim>\<open>
  df.ewm(alpha=0.2).mean()
  \<close>
\<close>

definition time_series_cell_49 :: "stmt list" where
  "time_series_cell_49 =
    [ExprStmt (Call (Attribute (Call (Attribute (Name ''df'') ''ewm'') [] [Keyword ''alpha''
       (Constant (FloatLit ''0.2''))]) ''mean'') [] [])]"

text \<open>
  \<^verbatim>\<open>
  fig, ax = plt.subplots()
  roll_num = 28
  alpha = 0.03
  xf["Close"].plot(label="Raw", alpha=0.5)
  xf["Close"].expanding().mean().plot(label="Expanding Average", style=":")
  xf["Close"].ewm(alpha=alpha).mean().plot(
      label=f"EWMA ($\\alpha=${alpha:.2f})", style="--"
  )
  xf["Close"].rolling(roll_num).mean().plot(label=f"{roll_num}D MA", style="-.")
  ax.legend()
  ax.set_ylabel("Close ($)");
  \<close>
\<close>

definition time_series_cell_51 :: "stmt list" where
  "time_series_cell_51 =
    [Assign [(Tuple [(Name ''fig''), (Name ''ax'')])] (Call (Attribute (Name ''plt'')
       ''subplots'') [] []),
     Assign [(Name ''roll_num'')] (Constant (Num 28)),
     Assign [(Name ''alpha'')] (Constant (FloatLit ''0.03'')),
     ExprStmt (Call (Attribute (Subscript (Name ''xf'') (Constant (Str ''Close''))) ''plot'')
       [] [Keyword ''label'' (Constant (Str ''Raw'')), Keyword ''alpha'' (Constant (FloatLit
       ''0.5''))]),
     ExprStmt (Call (Attribute (Call (Attribute (Call (Attribute (Subscript (Name ''xf'')
       (Constant (Str ''Close''))) ''expanding'') [] []) ''mean'') [] []) ''plot'') [] [Keyword
       ''label'' (Constant (Str ''Expanding Average'')), Keyword ''style'' (Constant (Str
       '':''))]),
     ExprStmt (Call (Attribute (Call (Attribute (Call (Attribute (Subscript (Name ''xf'')
       (Constant (Str ''Close''))) ''ewm'') [] [Keyword ''alpha'' (Name ''alpha'')]) ''mean'')
       [] []) ''plot'') [] [Keyword ''label'' (JoinedStr [(Constant (Str (''EWMA ($'' @ [CHR
       0x5C] @ ''alpha=$''))), (FormattedValue (Name ''alpha'') (Some ''.2f'')), (Constant (Str
       '')''))]), Keyword ''style'' (Constant (Str ''--''))]),
     ExprStmt (Call (Attribute (Call (Attribute (Call (Attribute (Subscript (Name ''xf'')
       (Constant (Str ''Close''))) ''rolling'') [(Name ''roll_num'')] []) ''mean'') [] [])
       ''plot'') [] [Keyword ''label'' (JoinedStr [(FormattedValue (Name ''roll_num'') None),
       (Constant (Str ''D MA''))]), Keyword ''style'' (Constant (Str ''-.''))]),
     ExprStmt (Call (Attribute (Name ''ax'') ''legend'') [] []),
     ExprStmt (Call (Attribute (Name ''ax'') ''set_ylabel'') [(Constant (Str ''Close ($)''))]
       [])]"

text \<open>
  \<^verbatim>\<open>
  roll = xf["Close"].rolling(50, center=True)

  fig, ax = plt.subplots()
  m = roll.agg(["mean", "std"])
  m["mean"].plot(ax=ax)
  ax.fill_between(m.index, m["mean"] - m["std"], m["mean"] + m["std"], alpha=0.2)
  ax.set_ylabel("Close ($)");
  \<close>
\<close>

definition time_series_cell_53 :: "stmt list" where
  "time_series_cell_53 =
    [Assign [(Name ''roll'')] (Call (Attribute (Subscript (Name ''xf'') (Constant (Str
       ''Close''))) ''rolling'') [(Constant (Num 50))] [Keyword ''center'' (Constant (BoolConst
       True))]),
     Assign [(Tuple [(Name ''fig''), (Name ''ax'')])] (Call (Attribute (Name ''plt'')
       ''subplots'') [] []),
     Assign [(Name ''m'')] (Call (Attribute (Name ''roll'') ''agg'') [(ListLit [(Constant (Str
       ''mean'')), (Constant (Str ''std''))])] []),
     ExprStmt (Call (Attribute (Subscript (Name ''m'') (Constant (Str ''mean''))) ''plot'') []
       [Keyword ''ax'' (Name ''ax'')]),
     ExprStmt (Call (Attribute (Name ''ax'') ''fill_between'') [(Attribute (Name ''m'')
       ''index''), (BinOp (Subscript (Name ''m'') (Constant (Str ''mean''))) Sub (Subscript
       (Name ''m'') (Constant (Str ''std'')))), (BinOp (Subscript (Name ''m'') (Constant (Str
       ''mean''))) Add (Subscript (Name ''m'') (Constant (Str ''std''))))] [Keyword ''alpha''
       (Constant (FloatLit ''0.2''))]),
     ExprStmt (Call (Attribute (Name ''ax'') ''set_ylabel'') [(Constant (Str ''Close ($)''))]
       [])]"

text \<open>
  \<^verbatim>\<open>
  lead = 12
  lag = 3
  orig_series_name = df.columns[0]
  df[f"lead ({lead} months)"] = df[orig_series_name].shift(-lead)
  df[f"lag ({lag} months)"] = df[orig_series_name].shift(lag)
  df.head()
  \<close>
\<close>

definition time_series_cell_55 :: "stmt list" where
  "time_series_cell_55 =
    [Assign [(Name ''lead'')] (Constant (Num 12)),
     Assign [(Name ''lag'')] (Constant (Num 3)),
     Assign [(Name ''orig_series_name'')] (Subscript (Attribute (Name ''df'') ''columns'')
       (Constant (Num 0))),
     Assign [(Subscript (Name ''df'') (JoinedStr [(Constant (Str ''lead ('')), (FormattedValue
       (Name ''lead'') None), (Constant (Str '' months)''))]))] (Call (Attribute (Subscript
       (Name ''df'') (Name ''orig_series_name'')) ''shift'') [(UnaryOp USub (Name ''lead''))]
       []),
     Assign [(Subscript (Name ''df'') (JoinedStr [(Constant (Str ''lag ('')), (FormattedValue
       (Name ''lag'') None), (Constant (Str '' months)''))]))] (Call (Attribute (Subscript (Name
       ''df'') (Name ''orig_series_name'')) ''shift'') [(Name ''lag'')] []),
     ExprStmt (Call (Attribute (Name ''df'') ''head'') [] [])]"

text \<open>
  \<^verbatim>\<open>
  df.iloc[100:300, :].plot();
  \<close>
\<close>

definition time_series_cell_56 :: "stmt list" where
  "time_series_cell_56 =
    [ExprStmt (Call (Attribute (Subscript (Attribute (Name ''df'') ''iloc'') (Tuple [(Slice
       (Some (Constant (Num 100))) (Some (Constant (Num 300))) None), (Slice None None None)]))
       ''plot'') [] [])]"

text \<open>
  \<^verbatim>\<open>
  fig = tsaplots.plot_acf(df["Vacancies (ICT), thousands"], lags=24)
  plt.show()
  \<close>
\<close>

definition time_series_cell_58 :: "stmt list" where
  "time_series_cell_58 =
    [Assign [(Name ''fig'')] (Call (Attribute (Name ''tsaplots'') ''plot_acf'') [(Subscript
       (Name ''df'') (Constant (Str ''Vacancies (ICT), thousands'')))] [Keyword ''lags''
       (Constant (Num 24))]),
     ExprStmt (Call (Attribute (Name ''plt'') ''show'') [] [])]"

text \<open>
  \<^verbatim>\<open>
  fig = tsaplots.plot_pacf(df["Vacancies (ICT), thousands"], lags=24)
  plt.show()
  \<close>
\<close>

definition time_series_cell_60 :: "stmt list" where
  "time_series_cell_60 =
    [Assign [(Name ''fig'')] (Call (Attribute (Name ''tsaplots'') ''plot_pacf'') [(Subscript
       (Name ''df'') (Constant (Str ''Vacancies (ICT), thousands'')))] [Keyword ''lags''
       (Constant (Num 24))]),
     ExprStmt (Call (Attribute (Name ''plt'') ''show'') [] [])]"

text \<open>
  \<^verbatim>\<open>
  import scipy.signal as ss


  def ccf_stats(x, y, lag_max=None):
      if not lag_max:
          lag_max = int(10 * np.log10(min(len(x), len(y)) / 2))
      result = ss.correlate(x - np.mean(x), y - np.mean(y), method="direct") / (
          np.std(y) * np.std(x) * len(y)
      )
      length = (len(result) - 1) // 2
      lo = length - lag_max
      hi = length + (lag_max + 1)
      return result[lo:hi]
  \<close>
\<close>

definition time_series_cell_63 :: "stmt list" where
  "time_series_cell_63 =
    [Import [Alias ''scipy.signal'' (Some ''ss'')],
     FunctionDef ''ccf_stats'' [''x'', ''y'', ''lag_max''] [(Constant (NoneConst))] [IfStmt
       (UnaryOp NotOp (Name ''lag_max'')) [Assign [(Name ''lag_max'')] (Call (Name ''int'')
       [(BinOp (Constant (Num 10)) Mult (Call (Attribute (Name ''np'') ''log10'') [(BinOp (Call
       (Name ''min'') [(Call (Name ''len'') [(Name ''x'')] []), (Call (Name ''len'') [(Name
       ''y'')] [])] []) Div (Constant (Num 2)))] []))] [])] [], Assign [(Name ''result'')]
       (BinOp (Call (Attribute (Name ''ss'') ''correlate'') [(BinOp (Name ''x'') Sub (Call
       (Attribute (Name ''np'') ''mean'') [(Name ''x'')] [])), (BinOp (Name ''y'') Sub (Call
       (Attribute (Name ''np'') ''mean'') [(Name ''y'')] []))] [Keyword ''method'' (Constant
       (Str ''direct''))]) Div (BinOp (BinOp (Call (Attribute (Name ''np'') ''std'') [(Name
       ''y'')] []) Mult (Call (Attribute (Name ''np'') ''std'') [(Name ''x'')] [])) Mult (Call
       (Name ''len'') [(Name ''y'')] []))), Assign [(Name ''length'')] (BinOp (BinOp (Call (Name
       ''len'') [(Name ''result'')] []) Sub (Constant (Num 1))) FloorDiv (Constant (Num 2))),
       Assign [(Name ''lo'')] (BinOp (Name ''length'') Sub (Name ''lag_max'')), Assign [(Name
       ''hi'')] (BinOp (Name ''length'') Add (BinOp (Name ''lag_max'') Add (Constant (Num 1)))),
       Return (Subscript (Name ''result'') (Slice (Some (Name ''lo'')) (Some (Name ''hi''))
       None))]]"

text \<open>
  \<^verbatim>\<open>
  lynx_df = pd.read_csv(
      "https://vincentarelbundock.github.io/Rdatasets/csv/datasets/lynx.csv", index_col=0
  )
  spot_df = pd.read_csv(
      "https://vincentarelbundock.github.io/Rdatasets/csv/datasets/sunspot.year.csv",
      index_col=0,
  )
  df = pd.merge(lynx_df, spot_df, on="time", how="inner", suffixes=("_lynx", "_sunspots"))
  df = df.set_index("time")
  df.head()
  \<close>
\<close>

definition time_series_cell_65 :: "stmt list" where
  "time_series_cell_65 =
    [Assign [(Name ''lynx_df'')] (Call (Attribute (Name ''pd'') ''read_csv'') [(Constant (Str
       ''https://vincentarelbundock.github.io/Rdatasets/csv/datasets/lynx.csv''))] [Keyword
       ''index_col'' (Constant (Num 0))]),
     Assign [(Name ''spot_df'')] (Call (Attribute (Name ''pd'') ''read_csv'') [(Constant (Str
       ''https://vincentarelbundock.github.io/Rdatasets/csv/datasets/sunspot.year.csv''))]
       [Keyword ''index_col'' (Constant (Num 0))]),
     Assign [(Name ''df'')] (Call (Attribute (Name ''pd'') ''merge'') [(Name ''lynx_df''),
       (Name ''spot_df'')] [Keyword ''on'' (Constant (Str ''time'')), Keyword ''how'' (Constant
       (Str ''inner'')), Keyword ''suffixes'' (Tuple [(Constant (Str ''_lynx'')), (Constant (Str
       ''_sunspots''))])]),
     Assign [(Name ''df'')] (Call (Attribute (Name ''df'') ''set_index'') [(Constant (Str
       ''time''))] []),
     ExprStmt (Call (Attribute (Name ''df'') ''head'') [] [])]"

text \<open>
  \<^verbatim>\<open>
  df.plot(subplots=True, ylim=(0, None));
  \<close>
\<close>

definition time_series_cell_66 :: "stmt list" where
  "time_series_cell_66 =
    [ExprStmt (Call (Attribute (Name ''df'') ''plot'') [] [Keyword ''subplots'' (Constant
       (BoolConst True)), Keyword ''ylim'' (Tuple [(Constant (Num 0)), (Constant
       (NoneConst))])])]"

text \<open>
  \<^verbatim>\<open>
  fig, ax = plt.subplots()
  ccf_res_stats = ccf_stats(df["value_sunspots"], np.log(df["value_lynx"]))
  conf_int = 2.0 / np.sqrt(len(df))
  ax.stem(
      range(-int(len(ccf_res_stats) / 2), int(len(ccf_res_stats) / 2) + 1),
      ccf_res_stats,
      basefmt=" ",
      markerfmt=" ",
  )
  ax.axhline(-conf_int, ls="--", lw=0.9, color="k")
  ax.axhline(conf_int, ls="--", lw=0.9, color="k")
  ax.axhline(0, color="k", lw=1)
  ax.set_ylabel("Cross-correlation")
  ax.set_xlabel("Lag")
  plt.show()
  \<close>
\<close>

definition time_series_cell_68 :: "stmt list" where
  "time_series_cell_68 =
    [Assign [(Tuple [(Name ''fig''), (Name ''ax'')])] (Call (Attribute (Name ''plt'')
       ''subplots'') [] []),
     Assign [(Name ''ccf_res_stats'')] (Call (Name ''ccf_stats'') [(Subscript (Name ''df'')
       (Constant (Str ''value_sunspots''))), (Call (Attribute (Name ''np'') ''log'') [(Subscript
       (Name ''df'') (Constant (Str ''value_lynx'')))] [])] []),
     Assign [(Name ''conf_int'')] (BinOp (Constant (FloatLit ''2.0'')) Div (Call (Attribute
       (Name ''np'') ''sqrt'') [(Call (Name ''len'') [(Name ''df'')] [])] [])),
     ExprStmt (Call (Attribute (Name ''ax'') ''stem'') [(Call (Name ''range'') [(UnaryOp USub
       (Call (Name ''int'') [(BinOp (Call (Name ''len'') [(Name ''ccf_res_stats'')] []) Div
       (Constant (Num 2)))] [])), (BinOp (Call (Name ''int'') [(BinOp (Call (Name ''len'')
       [(Name ''ccf_res_stats'')] []) Div (Constant (Num 2)))] []) Add (Constant (Num 1)))] []),
       (Name ''ccf_res_stats'')] [Keyword ''basefmt'' (Constant (Str '' '')), Keyword
       ''markerfmt'' (Constant (Str '' ''))]),
     ExprStmt (Call (Attribute (Name ''ax'') ''axhline'') [(UnaryOp USub (Name ''conf_int''))]
       [Keyword ''ls'' (Constant (Str ''--'')), Keyword ''lw'' (Constant (FloatLit ''0.9'')),
       Keyword ''color'' (Constant (Str ''k''))]),
     ExprStmt (Call (Attribute (Name ''ax'') ''axhline'') [(Name ''conf_int'')] [Keyword
       ''ls'' (Constant (Str ''--'')), Keyword ''lw'' (Constant (FloatLit ''0.9'')), Keyword
       ''color'' (Constant (Str ''k''))]),
     ExprStmt (Call (Attribute (Name ''ax'') ''axhline'') [(Constant (Num 0))] [Keyword
       ''color'' (Constant (Str ''k'')), Keyword ''lw'' (Constant (Num 1))]),
     ExprStmt (Call (Attribute (Name ''ax'') ''set_ylabel'') [(Constant (Str
       ''Cross-correlation''))] []),
     ExprStmt (Call (Attribute (Name ''ax'') ''set_xlabel'') [(Constant (Str ''Lag''))] []),
     ExprStmt (Call (Attribute (Name ''plt'') ''show'') [] [])]"

text \<open>
  \<^verbatim>\<open>
  import pandas_datareader.data as web
  from datetime import datetime

  ts_start_date = pd.to_datetime("2009-01-01")

  df = web.DataReader("NA000334Q", "fred", start=ts_start_date, end=datetime.now())
  df.columns = ["gdp"]
  df.head()
  \<close>
\<close>

definition time_series_cell_71 :: "stmt list" where
  "time_series_cell_71 =
    [Import [Alias ''pandas_datareader.data'' (Some ''web'')],
     ImportFrom ''datetime'' [Alias ''datetime'' None],
     Assign [(Name ''ts_start_date'')] (Call (Attribute (Name ''pd'') ''to_datetime'')
       [(Constant (Str ''2009-01-01''))] []),
     Assign [(Name ''df'')] (Call (Attribute (Name ''web'') ''DataReader'') [(Constant (Str
       ''NA000334Q'')), (Constant (Str ''fred''))] [Keyword ''start'' (Name ''ts_start_date''),
       Keyword ''end'' (Call (Attribute (Name ''datetime'') ''now'') [] [])]),
     Assign [(Attribute (Name ''df'') ''columns'')] (ListLit [(Constant (Str ''gdp''))]),
     ExprStmt (Call (Attribute (Name ''df'') ''head'') [] [])]"

text \<open>
  \<^verbatim>\<open>
  df["log"] = np.log(df["gdp"])
  df["square"] = np.power(df["gdp"], 2)
  df["sqrt"] = np.sqrt(df["gdp"])
  df.head()
  \<close>
\<close>

definition time_series_cell_73 :: "stmt list" where
  "time_series_cell_73 =
    [Assign [(Subscript (Name ''df'') (Constant (Str ''log'')))] (Call (Attribute (Name
       ''np'') ''log'') [(Subscript (Name ''df'') (Constant (Str ''gdp'')))] []),
     Assign [(Subscript (Name ''df'') (Constant (Str ''square'')))] (Call (Attribute (Name
       ''np'') ''power'') [(Subscript (Name ''df'') (Constant (Str ''gdp''))), (Constant (Num
       2))] []),
     Assign [(Subscript (Name ''df'') (Constant (Str ''sqrt'')))] (Call (Attribute (Name
       ''np'') ''sqrt'') [(Subscript (Name ''df'') (Constant (Str ''gdp'')))] []),
     ExprStmt (Call (Attribute (Name ''df'') ''head'') [] [])]"

text \<open>
  \<^verbatim>\<open>
  df["q_on_q"] = df["gdp"].pct_change(1) * 100
  df["q_on_q_yr_ago"] = df["gdp"].pct_change(4) * 100
  df.tail()
  \<close>
\<close>

definition time_series_cell_75 :: "stmt list" where
  "time_series_cell_75 =
    [Assign [(Subscript (Name ''df'') (Constant (Str ''q_on_q'')))] (BinOp (Call (Attribute
       (Subscript (Name ''df'') (Constant (Str ''gdp''))) ''pct_change'') [(Constant (Num 1))]
       []) Mult (Constant (Num 100))),
     Assign [(Subscript (Name ''df'') (Constant (Str ''q_on_q_yr_ago'')))] (BinOp (Call
       (Attribute (Subscript (Name ''df'') (Constant (Str ''gdp''))) ''pct_change'') [(Constant
       (Num 4))] []) Mult (Constant (Num 100))),
     ExprStmt (Call (Attribute (Name ''df'') ''tail'') [] [])]"

text \<open>
  \<^verbatim>\<open>
  df["demean"] = df["gdp"] - df["gdp"].mean()
  df[["gdp", "demean"]].tail()
  \<close>
\<close>

definition time_series_cell_77 :: "stmt list" where
  "time_series_cell_77 =
    [Assign [(Subscript (Name ''df'') (Constant (Str ''demean'')))] (BinOp (Subscript (Name
       ''df'') (Constant (Str ''gdp''))) Sub (Call (Attribute (Subscript (Name ''df'') (Constant
       (Str ''gdp''))) ''mean'') [] [])),
     ExprStmt (Call (Attribute (Subscript (Name ''df'') (ListLit [(Constant (Str ''gdp'')),
       (Constant (Str ''demean''))])) ''tail'') [] [])]"

text \<open>
  \<^verbatim>\<open>
  df["real_time_demean"] = df["gdp"] - df["gdp"].expanding().mean()
  df[["gdp", "real_time_demean"]].head()
  \<close>
\<close>

definition time_series_cell_79 :: "stmt list" where
  "time_series_cell_79 =
    [Assign [(Subscript (Name ''df'') (Constant (Str ''real_time_demean'')))] (BinOp
       (Subscript (Name ''df'') (Constant (Str ''gdp''))) Sub (Call (Attribute (Call (Attribute
       (Subscript (Name ''df'') (Constant (Str ''gdp''))) ''expanding'') [] []) ''mean'') []
       [])),
     ExprStmt (Call (Attribute (Subscript (Name ''df'') (ListLit [(Constant (Str ''gdp'')),
       (Constant (Str ''real_time_demean''))])) ''head'') [] [])]"

text \<open>
  \<^verbatim>\<open>
  df["difference"] = df["gdp"].diff()
  df[["gdp", "difference"]].head()
  \<close>
\<close>

definition time_series_cell_81 :: "stmt list" where
  "time_series_cell_81 =
    [Assign [(Subscript (Name ''df'') (Constant (Str ''difference'')))] (Call (Attribute
       (Subscript (Name ''df'') (Constant (Str ''gdp''))) ''diff'') [] []),
     ExprStmt (Call (Attribute (Subscript (Name ''df'') (ListLit [(Constant (Str ''gdp'')),
       (Constant (Str ''difference''))])) ''head'') [] [])]"

text \<open>
  \<^verbatim>\<open>
  from scipy import stats

  data = prng.exponential(size=1000)
  # Last entry of the list gets the optimal value for lambda
  \<lambda>_values = [0, 0.6, stats.boxcox(data)[1]]
  # One extra plot for the original data
  num_plots = len(\<lambda>_values) + 1
  # For fitting a normal distribution
  x = np.linspace(-5, 5, 100)
  bins = 30


  fig, axes = plt.subplots(ncols=num_plots // 2, nrows=num_plots - num_plots // 2)
  axes = axes.flatten()
  for i, ax in enumerate(axes[1:]):
      values = stats.boxcox(data, lmbda=\<lambda>_values[i])
      ax.hist(values, density=True, bins=bins)
      title = r"$\lambda =$" + f"{\<lambda>_values[i]}"
      if i == len(\<lambda>_values) - 1:
          title = r"$\lambda^*=$" + f"{\<lambda>_values[i]:.2f}"
      ax.set_title(title, size=12)
      mu, std = stats.norm.fit(values)
      p = stats.norm.pdf(x, mu, std)
      ax.plot(x, p, linewidth=2, alpha=0.9)
  axes[0].hist(data, density=True, bins=bins)
  axes[0].set_title("Original", size=12)
  [ax.set_xlim(-4, 4) for ax in axes]
  plt.suptitle("Box Cox Transformed Distributions", size=18)
  plt.tight_layout()
  plt.show()
  \<close>
\<close>

definition time_series_cell_83 :: "stmt list" where
  "time_series_cell_83 =
    [ImportFrom ''scipy'' [Alias ''stats'' None],
     Assign [(Name ''data'')] (Call (Attribute (Name ''prng'') ''exponential'') [] [Keyword
       ''size'' (Constant (Num 1000))]),
     Assign [(Name ([CHR 0xCE, CHR 0xBB] @ ''_values''))] (ListLit [(Constant (Num 0)),
       (Constant (FloatLit ''0.6'')), (Subscript (Call (Attribute (Name ''stats'') ''boxcox'')
       [(Name ''data'')] []) (Constant (Num 1)))]),
     Assign [(Name ''num_plots'')] (BinOp (Call (Name ''len'') [(Name ([CHR 0xCE, CHR 0xBB] @
       ''_values''))] []) Add (Constant (Num 1))),
     Assign [(Name ''x'')] (Call (Attribute (Name ''np'') ''linspace'') [(UnaryOp USub
       (Constant (Num 5))), (Constant (Num 5)), (Constant (Num 100))] []),
     Assign [(Name ''bins'')] (Constant (Num 30)),
     Assign [(Tuple [(Name ''fig''), (Name ''axes'')])] (Call (Attribute (Name ''plt'')
       ''subplots'') [] [Keyword ''ncols'' (BinOp (Name ''num_plots'') FloorDiv (Constant (Num
       2))), Keyword ''nrows'' (BinOp (Name ''num_plots'') Sub (BinOp (Name ''num_plots'')
       FloorDiv (Constant (Num 2))))]),
     Assign [(Name ''axes'')] (Call (Attribute (Name ''axes'') ''flatten'') [] []),
     For (Tuple [(Name ''i''), (Name ''ax'')]) (Call (Name ''enumerate'') [(Subscript (Name
       ''axes'') (Slice (Some (Constant (Num 1))) None None))] []) [Assign [(Name ''values'')]
       (Call (Attribute (Name ''stats'') ''boxcox'') [(Name ''data'')] [Keyword ''lmbda''
       (Subscript (Name ([CHR 0xCE, CHR 0xBB] @ ''_values'')) (Name ''i''))]), ExprStmt (Call
       (Attribute (Name ''ax'') ''hist'') [(Name ''values'')] [Keyword ''density'' (Constant
       (BoolConst True)), Keyword ''bins'' (Name ''bins'')]), Assign [(Name ''title'')] (BinOp
       (Constant (Str (''$'' @ [CHR 0x5C] @ ''lambda =$''))) Add (JoinedStr [(FormattedValue
       (Subscript (Name ([CHR 0xCE, CHR 0xBB] @ ''_values'')) (Name ''i'')) None)])), IfStmt
       (Compare (Name ''i'') Eq (BinOp (Call (Name ''len'') [(Name ([CHR 0xCE, CHR 0xBB] @
       ''_values''))] []) Sub (Constant (Num 1)))) [Assign [(Name ''title'')] (BinOp (Constant
       (Str (''$'' @ [CHR 0x5C] @ ''lambda^*=$''))) Add (JoinedStr [(FormattedValue (Subscript
       (Name ([CHR 0xCE, CHR 0xBB] @ ''_values'')) (Name ''i'')) (Some ''.2f''))]))] [],
       ExprStmt (Call (Attribute (Name ''ax'') ''set_title'') [(Name ''title'')] [Keyword
       ''size'' (Constant (Num 12))]), Assign [(Tuple [(Name ''mu''), (Name ''std'')])] (Call
       (Attribute (Attribute (Name ''stats'') ''norm'') ''fit'') [(Name ''values'')] []), Assign
       [(Name ''p'')] (Call (Attribute (Attribute (Name ''stats'') ''norm'') ''pdf'') [(Name
       ''x''), (Name ''mu''), (Name ''std'')] []), ExprStmt (Call (Attribute (Name ''ax'')
       ''plot'') [(Name ''x''), (Name ''p'')] [Keyword ''linewidth'' (Constant (Num 2)), Keyword
       ''alpha'' (Constant (FloatLit ''0.9''))])],
     ExprStmt (Call (Attribute (Subscript (Name ''axes'') (Constant (Num 0))) ''hist'') [(Name
       ''data'')] [Keyword ''density'' (Constant (BoolConst True)), Keyword ''bins'' (Name
       ''bins'')]),
     ExprStmt (Call (Attribute (Subscript (Name ''axes'') (Constant (Num 0))) ''set_title'')
       [(Constant (Str ''Original''))] [Keyword ''size'' (Constant (Num 12))]),
     ExprStmt (ListComp (Call (Attribute (Name ''ax'') ''set_xlim'') [(UnaryOp USub (Constant
       (Num 4))), (Constant (Num 4))] []) (Name ''ax'') (Name ''axes'')),
     ExprStmt (Call (Attribute (Name ''plt'') ''suptitle'') [(Constant (Str
       ''Box Cox Transformed Distributions''))] [Keyword ''size'' (Constant (Num 18))]),
     ExprStmt (Call (Attribute (Name ''plt'') ''tight_layout'') [] []),
     ExprStmt (Call (Attribute (Name ''plt'') ''show'') [] [])]"

text \<open>
  \<^verbatim>\<open>
  fred_codes = {
      "PCEPI": "inflation",
      "APU0000710212": "cheddar",  # Avg price per pound in US cities
  }


  cdf = (
      pd.concat(
          [
              web.DataReader(
                  x,
                  "fred",
                  start=pd.to_datetime("2000-01-01"),
                  end=pd.to_datetime("2021-01-01"),
              )
              for x in fred_codes.keys()
          ],
          axis=1,
      )
      .rename(columns=fred_codes)
      .groupby(pd.Grouper(freq="A"))
      .mean()
  )
  cdf.head()
  \<close>
\<close>

definition time_series_cell_86 :: "stmt list" where
  "time_series_cell_86 =
    [Assign [(Name ''fred_codes'')] (Dict [(Constant (Str ''PCEPI'')), (Constant (Str
       ''APU0000710212''))] [(Constant (Str ''inflation'')), (Constant (Str ''cheddar''))]),
     Assign [(Name ''cdf'')] (Call (Attribute (Call (Attribute (Call (Attribute (Call
       (Attribute (Name ''pd'') ''concat'') [(ListComp (Call (Attribute (Name ''web'')
       ''DataReader'') [(Name ''x''), (Constant (Str ''fred''))] [Keyword ''start'' (Call
       (Attribute (Name ''pd'') ''to_datetime'') [(Constant (Str ''2000-01-01''))] []), Keyword
       ''end'' (Call (Attribute (Name ''pd'') ''to_datetime'') [(Constant (Str ''2021-01-01''))]
       [])]) (Name ''x'') (Call (Attribute (Name ''fred_codes'') ''keys'') [] []))] [Keyword
       ''axis'' (Constant (Num 1))]) ''rename'') [] [Keyword ''columns'' (Name ''fred_codes'')])
       ''groupby'') [(Call (Attribute (Name ''pd'') ''Grouper'') [] [Keyword ''freq'' (Constant
       (Str ''A''))])] []) ''mean'') [] []),
     ExprStmt (Call (Attribute (Name ''cdf'') ''head'') [] [])]"

text \<open>
  \<^verbatim>\<open>
  cdf["cheddar_i_adjust"] = (
      cdf.loc["2021-12-31", "inflation"] * cdf["cheddar"] / cdf["inflation"]
  )
  fig, ax = plt.subplots()
  ax.plot(cdf.index, cdf["cheddar"], label="Cheddar (nominal USD)")
  ax.plot(cdf.index, cdf["cheddar_i_adjust"], label="Cheddar (2021 USD)", linestyle="--")
  ax.set_ylabel("Cost per pound (USD)")
  ax.legend()
  plt.show()
  \<close>
\<close>

definition time_series_cell_87 :: "stmt list" where
  "time_series_cell_87 =
    [Assign [(Subscript (Name ''cdf'') (Constant (Str ''cheddar_i_adjust'')))] (BinOp (BinOp
       (Subscript (Attribute (Name ''cdf'') ''loc'') (Tuple [(Constant (Str ''2021-12-31'')),
       (Constant (Str ''inflation''))])) Mult (Subscript (Name ''cdf'') (Constant (Str
       ''cheddar'')))) Div (Subscript (Name ''cdf'') (Constant (Str ''inflation'')))),
     Assign [(Tuple [(Name ''fig''), (Name ''ax'')])] (Call (Attribute (Name ''plt'')
       ''subplots'') [] []),
     ExprStmt (Call (Attribute (Name ''ax'') ''plot'') [(Attribute (Name ''cdf'') ''index''),
       (Subscript (Name ''cdf'') (Constant (Str ''cheddar'')))] [Keyword ''label'' (Constant
       (Str ''Cheddar (nominal USD)''))]),
     ExprStmt (Call (Attribute (Name ''ax'') ''plot'') [(Attribute (Name ''cdf'') ''index''),
       (Subscript (Name ''cdf'') (Constant (Str ''cheddar_i_adjust'')))] [Keyword ''label''
       (Constant (Str ''Cheddar (2021 USD)'')), Keyword ''linestyle'' (Constant (Str ''--''))]),
     ExprStmt (Call (Attribute (Name ''ax'') ''set_ylabel'') [(Constant (Str
       ''Cost per pound (USD)''))] []),
     ExprStmt (Call (Attribute (Name ''ax'') ''legend'') [] []),
     ExprStmt (Call (Attribute (Name ''plt'') ''show'') [] [])]"

text \<open>
  \<^verbatim>\<open>
  import numpy as np
  import pandas as pd
  import matplotlib.pyplot as plt
  from plotnine import *
  import altair as alt
  from vega_datasets import data
  \<close>
\<close>

definition common_plots_cell_0 :: "stmt list" where
  "common_plots_cell_0 =
    [Import [Alias ''numpy'' (Some ''np'')],
     Import [Alias ''pandas'' (Some ''pd'')],
     Import [Alias ''matplotlib.pyplot'' (Some ''plt'')],
     ImportFrom ''plotnine'' [Alias ''*'' None],
     Import [Alias ''altair'' (Some ''alt'')],
     ImportFrom ''vega_datasets'' [Alias ''data'' None]]"

text \<open>
  \<^verbatim>\<open>

  # Set seed for reproducibility
  np.random.seed(10)
  # Set max rows displayed for readability
  pd.set_option('display.max_rows', 6)
  \<close>
\<close>

definition common_plots_cell_1 :: "stmt list" where
  "common_plots_cell_1 =
    [ExprStmt (Call (Attribute (Attribute (Name ''np'') ''random'') ''seed'') [(Constant (Num
       10))] []),
     ExprStmt (Call (Attribute (Name ''pd'') ''set_option'') [(Constant (Str
       ''display.max_rows'')), (Constant (Num 6))] [])]"

text \<open>
  \<^verbatim>\<open>
  cars = data.cars()
  cars.head()
  \<close>
\<close>

definition common_plots_cell_2 :: "stmt list" where
  "common_plots_cell_2 =
    [Assign [(Name ''cars'')] (Call (Attribute (Name ''data'') ''cars'') [] []),
     ExprStmt (Call (Attribute (Name ''cars'') ''head'') [] [])]"

text \<open>
  \<^verbatim>\<open>
  from myst_nb import glue

  # Matplotlib
  colormap = plt.cm.Set1
  colorst = [colormap(i) for i in
             np.linspace(0, 0.9, len(cars['Origin'].unique()))]
  fig, ax = plt.subplots()
  for i, origin in enumerate(cars['Origin'].unique()):
      cars_sub = cars[cars['Origin'] == origin]
      ax.scatter(cars_sub['Horsepower'],
                 cars_sub['Miles_per_Gallon'],
                 color=colorst[i],
                 label=origin,
                 alpha=0.6,
                 edgecolor='k')
  ax.set_ylabel('Miles per Gallon')
  ax.set_xlabel('Horsepower')
  ax.legend()
  plt.show()

  glue("m_scatter", fig, display=False)
  \<close>
\<close>

definition common_plots_cell_3 :: "stmt list" where
  "common_plots_cell_3 =
    [ImportFrom ''myst_nb'' [Alias ''glue'' None],
     Assign [(Name ''colormap'')] (Attribute (Attribute (Name ''plt'') ''cm'') ''Set1''),
     Assign [(Name ''colorst'')] (ListComp (Call (Name ''colormap'') [(Name ''i'')] []) (Name
       ''i'') (Call (Attribute (Name ''np'') ''linspace'') [(Constant (Num 0)), (Constant
       (FloatLit ''0.9'')), (Call (Name ''len'') [(Call (Attribute (Subscript (Name ''cars'')
       (Constant (Str ''Origin''))) ''unique'') [] [])] [])] [])),
     Assign [(Tuple [(Name ''fig''), (Name ''ax'')])] (Call (Attribute (Name ''plt'')
       ''subplots'') [] []),
     For (Tuple [(Name ''i''), (Name ''origin'')]) (Call (Name ''enumerate'') [(Call
       (Attribute (Subscript (Name ''cars'') (Constant (Str ''Origin''))) ''unique'') [] [])]
       []) [Assign [(Name ''cars_sub'')] (Subscript (Name ''cars'') (Compare (Subscript (Name
       ''cars'') (Constant (Str ''Origin''))) Eq (Name ''origin''))), ExprStmt (Call (Attribute
       (Name ''ax'') ''scatter'') [(Subscript (Name ''cars_sub'') (Constant (Str
       ''Horsepower''))), (Subscript (Name ''cars_sub'') (Constant (Str ''Miles_per_Gallon'')))]
       [Keyword ''color'' (Subscript (Name ''colorst'') (Name ''i'')), Keyword ''label'' (Name
       ''origin''), Keyword ''alpha'' (Constant (FloatLit ''0.6'')), Keyword ''edgecolor''
       (Constant (Str ''k''))])],
     ExprStmt (Call (Attribute (Name ''ax'') ''set_ylabel'') [(Constant (Str
       ''Miles per Gallon''))] []),
     ExprStmt (Call (Attribute (Name ''ax'') ''set_xlabel'') [(Constant (Str ''Horsepower''))]
       []),
     ExprStmt (Call (Attribute (Name ''ax'') ''legend'') [] []),
     ExprStmt (Call (Attribute (Name ''plt'') ''show'') [] []),
     ExprStmt (Call (Name ''glue'') [(Constant (Str ''m_scatter'')), (Name ''fig'')] [Keyword
       ''display'' (Constant (BoolConst False))])]"

definition data_exploratory_analysis :: document where
  "data_exploratory_analysis = Notebook
    [Markdown, Code None [] data_exploratory_analysis_cell_1, Markdown, Code None []
     data_exploratory_analysis_cell_3, Markdown, Code None [] data_exploratory_analysis_cell_5,
     Markdown, Code None [] data_exploratory_analysis_cell_7, Markdown, Code None []
     data_exploratory_analysis_cell_9, Markdown, Code None [] data_exploratory_analysis_cell_11,
     Markdown, Markdown, Code None [] data_exploratory_analysis_cell_14, Markdown, Code None []
     data_exploratory_analysis_cell_16, Markdown, Code None []
     data_exploratory_analysis_cell_18, Markdown, Code None []
     data_exploratory_analysis_cell_20, Markdown, Code None []
     data_exploratory_analysis_cell_22, Markdown, Code None []
     data_exploratory_analysis_cell_24, Markdown, Code None []
     data_exploratory_analysis_cell_26, Markdown, Code None []
     data_exploratory_analysis_cell_28, Markdown, Code None []
     data_exploratory_analysis_cell_30, Markdown, Code None []
     data_exploratory_analysis_cell_32, Markdown, Code None []
     data_exploratory_analysis_cell_34, Markdown, Code None []
     data_exploratory_analysis_cell_36, Markdown, Markdown, Code None []
     data_exploratory_analysis_cell_39, Markdown, Code None []
     data_exploratory_analysis_cell_41, Markdown, Code None []
     data_exploratory_analysis_cell_43, Markdown, Code None []
     data_exploratory_analysis_cell_45, Markdown, Code None []
     data_exploratory_analysis_cell_47, Markdown, Code None []
     data_exploratory_analysis_cell_49, Code None [] data_exploratory_analysis_cell_50,
     Markdown, Code None [] data_exploratory_analysis_cell_52, Markdown, Code None []
     data_exploratory_analysis_cell_54, Markdown, Code None []
     data_exploratory_analysis_cell_56, Markdown, Markdown, Code None []
     data_exploratory_analysis_cell_59, Code None [] data_exploratory_analysis_cell_60, Markdown]"

definition rbc :: document where
  "rbc = Notebook
    [Markdown, Markdown, Code None [] rbc_cell_2, Markdown, Markdown]"

definition time_series :: document where
  "time_series = Notebook
    [Markdown, Code None [] time_series_cell_1, Markdown, Code None [] time_series_cell_3,
     Markdown, Markdown, Code None [] time_series_cell_6, Markdown, Code None []
     time_series_cell_8, Markdown, Code None [] time_series_cell_10, Markdown, Code None []
     time_series_cell_12, Markdown, Code None [] time_series_cell_14, Markdown, Code None []
     time_series_cell_16, Markdown, Code None [] time_series_cell_18, Markdown, Code None []
     time_series_cell_20, Markdown, Code None [] time_series_cell_22, Markdown, Code None []
     time_series_cell_24, Markdown, Markdown, Code None [] time_series_cell_27, Markdown, Code
     None [] time_series_cell_29, Markdown, Code None [] time_series_cell_31, Markdown,
     Markdown, Code None [] time_series_cell_34, Markdown, Code None [] time_series_cell_36,
     Markdown, Code None [] time_series_cell_38, Markdown, Code None [] time_series_cell_40,
     Markdown, Code None [] time_series_cell_42, Markdown, Code None [] time_series_cell_44,
     Code None [] time_series_cell_45, Markdown, Code None [] time_series_cell_47, Markdown,
     Code None [] time_series_cell_49, Markdown, Code None [] time_series_cell_51, Markdown,
     Code None [] time_series_cell_53, Markdown, Code None [] time_series_cell_55, Code None []
     time_series_cell_56, Markdown, Code None [] time_series_cell_58, Markdown, Code None []
     time_series_cell_60, Markdown, Markdown, Code None [] time_series_cell_63, Markdown, Code
     None [] time_series_cell_65, Code None [] time_series_cell_66, Markdown, Code None []
     time_series_cell_68, Markdown, Markdown, Code None [] time_series_cell_71, Markdown, Code
     None [] time_series_cell_73, Markdown, Code None [] time_series_cell_75, Markdown, Code
     None [] time_series_cell_77, Markdown, Code None [] time_series_cell_79, Markdown, Code
     None [] time_series_cell_81, Markdown, Code None [] time_series_cell_83, Markdown,
     Markdown, Code None [] time_series_cell_86, Code None [] time_series_cell_87, Markdown]"

definition common_plots :: document where
  "common_plots = MystMarkdown
    [common_plots_cell_0, common_plots_cell_1, common_plots_cell_2, common_plots_cell_3]"

text \<open>
  The chapter \<^verbatim>\<open>Coming from R\<close> is a MyST markdown file with no \<^verbatim>\<open>{code-cell}\<close> block: its
  Python snippets are inline code in tables, which is never executed. In
  \<^verbatim>\<open>common-plots.md\<close> a \<^verbatim>\<open>{code-cell}\<close> fence inside the fence of a panel is content of
  that directive and no cell of the document, and the blocks marked \<^verbatim>\<open>{code-block}\<close>
  (one of them \<^verbatim>\<open>df.mean()\<close>) are displayed, not executed.
\<close>

definition coming_from_r :: document where
  "coming_from_r = MystMarkdown []"

definition chapters :: "document list" where
  "chapters = [data_exploratory_analysis, rbc, time_series, common_plots, coming_from_r]"

definition notebooks :: "document list" where
  "notebooks = [data_exploratory_analysis, rbc, time_series]"

subsection \<open>Imports, function definitions and statement kinds\<close>

text \<open>The top-level package of a dotted module name: \<^verbatim>\<open>matplotlib.pyplot\<close> gives \<^verbatim>\<open>matplotlib\<close>.\<close>

definition top_package :: "string \<Rightarrow> string" where
  "top_package m = takeWhile (\<lambda>c. c \<noteq> CHR ''.'') m"

fun alias_name :: "import_alias \<Rightarrow> string" where
  "alias_name (Alias n a) = n"

text \<open>The modules a statement imports, and the functions it defines, nested statements included.\<close>

fun imported_modules :: "stmt \<Rightarrow> string list" where
  "imported_modules (Import as) = map alias_name as"
| "imported_modules (ImportFrom m as) = [m]"
| "imported_modules (FunctionDef f ps ds body) = concat (map imported_modules body)"
| "imported_modules (Assign ts v) = []"
| "imported_modules (ExprStmt e) = []"
| "imported_modules (For t i body) = concat (map imported_modules body)"
| "imported_modules (IfStmt c body orelse) =
     concat (map imported_modules body) @ concat (map imported_modules orelse)"
| "imported_modules (Return e) = []"

fun defined_functions :: "stmt \<Rightarrow> string list" where
  "defined_functions (Import as) = []"
| "defined_functions (ImportFrom m as) = []"
| "defined_functions (FunctionDef f ps ds body) = f # concat (map defined_functions body)"
| "defined_functions (Assign ts v) = []"
| "defined_functions (ExprStmt e) = []"
| "defined_functions (For t i body) = concat (map defined_functions body)"
| "defined_functions (IfStmt c body orelse) =
     concat (map defined_functions body) @ concat (map defined_functions orelse)"
| "defined_functions (Return e) = []"

definition statements :: "document \<Rightarrow> stmt list" where
  "statements d = concat (code_cells d)"

definition imported_packages :: "document \<Rightarrow> string list" where
  "imported_packages d =
     remdups (map top_package (concat (map imported_modules (statements d))))"

definition functions_of :: "document \<Rightarrow> string list" where
  "functions_of d = concat (map defined_functions (statements d))"

text \<open>
  Computation of the chapter's own, as opposed to a call that hands the work to a
  library routine: an arithmetic operation none of whose operands comes from a call.
  \<open>own_arithmetic\<close> lists the operations of this kind in an expression, in the order
  of the source, an operation before those inside it.
\<close>

fun call_free :: "expr \<Rightarrow> bool" and call_free_keyword :: "keyword \<Rightarrow> bool" where
  "call_free (Name n) = True"
| "call_free (Constant c) = True"
| "call_free (Attribute e a) = call_free e"
| "call_free (Subscript e i) = (call_free e \<and> call_free i)"
| "call_free (Call f as ks) = False"
| "call_free (BinOp l opr r) = (call_free l \<and> call_free r)"
| "call_free (UnaryOp opr e) = call_free e"
| "call_free (Compare l opr r) = (call_free l \<and> call_free r)"
| "call_free (Tuple es) = list_all call_free es"
| "call_free (ListLit es) = list_all call_free es"
| "call_free (Dict ks vs) = (list_all call_free ks \<and> list_all call_free vs)"
| "call_free (Slice l u s) =
     ((case l of None \<Rightarrow> True | Some e \<Rightarrow> call_free e) \<and>
      (case u of None \<Rightarrow> True | Some e \<Rightarrow> call_free e) \<and>
      (case s of None \<Rightarrow> True | Some e \<Rightarrow> call_free e))"
| "call_free (Lambda ps b) = call_free b"
| "call_free (ListComp elt t it) = (call_free elt \<and> call_free t \<and> call_free it)"
| "call_free (JoinedStr es) = list_all call_free es"
| "call_free (FormattedValue e f) = call_free e"
| "call_free_keyword (Keyword k e) = call_free e"

fun own_arithmetic :: "expr \<Rightarrow> expr list" and own_arithmetic_keyword :: "keyword \<Rightarrow> expr list"
where
  "own_arithmetic (Name n) = []"
| "own_arithmetic (Constant c) = []"
| "own_arithmetic (Attribute e a) = own_arithmetic e"
| "own_arithmetic (Subscript e i) = own_arithmetic e @ own_arithmetic i"
| "own_arithmetic (Call f as ks) =
     own_arithmetic f @ concat (map own_arithmetic as) @ concat (map own_arithmetic_keyword ks)"
| "own_arithmetic (BinOp l opr r) =
     (if call_free l \<and> call_free r then [BinOp l opr r] else []) @
     own_arithmetic l @ own_arithmetic r"
| "own_arithmetic (UnaryOp opr e) = own_arithmetic e"
| "own_arithmetic (Compare l opr r) = own_arithmetic l @ own_arithmetic r"
| "own_arithmetic (Tuple es) = concat (map own_arithmetic es)"
| "own_arithmetic (ListLit es) = concat (map own_arithmetic es)"
| "own_arithmetic (Dict ks vs) = concat (map own_arithmetic ks) @ concat (map own_arithmetic vs)"
| "own_arithmetic (Slice l u s) =
     (case l of None \<Rightarrow> [] | Some e \<Rightarrow> own_arithmetic e) @
     (case u of None \<Rightarrow> [] | Some e \<Rightarrow> own_arithmetic e) @
     (case s of None \<Rightarrow> [] | Some e \<Rightarrow> own_arithmetic e)"
| "own_arithmetic (Lambda ps b) = own_arithmetic b"
| "own_arithmetic (ListComp elt t it) = own_arithmetic elt @ own_arithmetic it"
| "own_arithmetic (JoinedStr es) = concat (map own_arithmetic es)"
| "own_arithmetic (FormattedValue e f) = own_arithmetic e"
| "own_arithmetic_keyword (Keyword k e) = own_arithmetic e"






subsection \<open>Names read and names bound\<close>

text \<open>
  The names an assignment target binds: a name binds itself, a tuple or list of targets
  binds what its parts bind, and a subscript or attribute target (\<^verbatim>\<open>df["x"] = ...\<close>)
  stores into an object and binds no name.
\<close>

fun bound_names :: "expr \<Rightarrow> string list" where
  "bound_names (Name n) = [n]"
| "bound_names (Tuple es) = concat (map bound_names es)"
| "bound_names (ListLit es) = concat (map bound_names es)"
| "bound_names e = []"

text \<open>
  The names an expression reads from the enclosing namespace, in the order of
  evaluation. The parameters of a lambda and the target of a comprehension are local
  to it. A lambda's body is counted as read where the lambda stands: every lambda of
  the chapters is handed to a library routine that calls it at once.
\<close>

fun loads :: "expr \<Rightarrow> string list" and loads_keyword :: "keyword \<Rightarrow> string list" where
  "loads (Name n) = [n]"
| "loads (Constant c) = []"
| "loads (Attribute e a) = loads e"
| "loads (Subscript e i) = loads e @ loads i"
| "loads (Call f as ks) = loads f @ concat (map loads as) @ concat (map loads_keyword ks)"
| "loads (BinOp l opr r) = loads l @ loads r"
| "loads (UnaryOp opr e) = loads e"
| "loads (Compare l opr r) = loads l @ loads r"
| "loads (Tuple es) = concat (map loads es)"
| "loads (ListLit es) = concat (map loads es)"
| "loads (Dict ks vs) = concat (map loads ks) @ concat (map loads vs)"
| "loads (Slice l u s) =
     (case l of None \<Rightarrow> [] | Some e \<Rightarrow> loads e) @
     (case u of None \<Rightarrow> [] | Some e \<Rightarrow> loads e) @
     (case s of None \<Rightarrow> [] | Some e \<Rightarrow> loads e)"
| "loads (Lambda ps b) = filter (\<lambda>n. n \<notin> set ps) (loads b)"
| "loads (ListComp elt t it) = loads it @ filter (\<lambda>n. n \<notin> set (bound_names t)) (loads elt)"
| "loads (JoinedStr es) = concat (map loads es)"
| "loads (FormattedValue e f) = loads e"
| "loads_keyword (Keyword k e) = loads e"

text \<open>The names a target reads before it stores: the object and index of a subscript,
  the object of an attribute.\<close>

fun target_loads :: "expr \<Rightarrow> string list" where
  "target_loads (Name n) = []"
| "target_loads (Tuple es) = concat (map target_loads es)"
| "target_loads (ListLit es) = concat (map target_loads es)"
| "target_loads e = loads e"

text \<open>Every name that occurs in a statement, read or bound, nested statements included.\<close>

fun names_of :: "expr \<Rightarrow> string list" and names_of_keyword :: "keyword \<Rightarrow> string list" where
  "names_of (Name n) = [n]"
| "names_of (Constant c) = []"
| "names_of (Attribute e a) = names_of e"
| "names_of (Subscript e i) = names_of e @ names_of i"
| "names_of (Call f as ks) =
     names_of f @ concat (map names_of as) @ concat (map names_of_keyword ks)"
| "names_of (BinOp l opr r) = names_of l @ names_of r"
| "names_of (UnaryOp opr e) = names_of e"
| "names_of (Compare l opr r) = names_of l @ names_of r"
| "names_of (Tuple es) = concat (map names_of es)"
| "names_of (ListLit es) = concat (map names_of es)"
| "names_of (Dict ks vs) = concat (map names_of ks) @ concat (map names_of vs)"
| "names_of (Slice l u s) =
     (case l of None \<Rightarrow> [] | Some e \<Rightarrow> names_of e) @
     (case u of None \<Rightarrow> [] | Some e \<Rightarrow> names_of e) @
     (case s of None \<Rightarrow> [] | Some e \<Rightarrow> names_of e)"
| "names_of (Lambda ps b) = ps @ names_of b"
| "names_of (ListComp elt t it) = names_of it @ names_of t @ names_of elt"
| "names_of (JoinedStr es) = concat (map names_of es)"
| "names_of (FormattedValue e f) = names_of e"
| "names_of_keyword (Keyword k e) = names_of e"

fun stmt_names :: "stmt \<Rightarrow> string list" where
  "stmt_names (Import as) = []"
| "stmt_names (ImportFrom m as) = []"
| "stmt_names (FunctionDef f ps ds body) =
     ps @ concat (map names_of ds) @ concat (map stmt_names body)"
| "stmt_names (Assign ts v) = concat (map names_of ts) @ names_of v"
| "stmt_names (ExprStmt e) = names_of e"
| "stmt_names (For t i body) = names_of t @ names_of i @ concat (map stmt_names body)"
| "stmt_names (IfStmt c body orelse) =
     names_of c @ concat (map stmt_names body) @ concat (map stmt_names orelse)"
| "stmt_names (Return e) = names_of e"

definition names_used :: "document \<Rightarrow> string list" where
  "names_used d = concat (map stmt_names (statements d))"

subsection \<open>Running the cells of a chapter from the top\<close>

text \<open>
  Running a chapter threads one namespace, the list of the names bound so far, through
  its cells in order. Reading a name that is not bound raises Python's \<^verbatim>\<open>NameError\<close>
  and stops the run. The run starts from the names a fresh Jupyter kernel has: Python's
  builtins and the names IPython adds.

  What the libraries do when called is no part of this model: it follows the names
  only. An imported module is taken to be installed. The names that
  \<^verbatim>\<open>from m import *\<close> binds are those the module \<open>m\<close> exports; they are a parameter
  \<open>star\<close> of the run. A \<^verbatim>\<open>def\<close> binds its name and reads its defaults; its body runs
  only when called and is not followed. The body of a loop and both branches of a
  conditional are followed once.
\<close>

datatype py_error = NameError string

type_synonym namespace = "string list"

definition builtins :: namespace where
  "builtins =
    [''abs'', ''all'', ''any'', ''ascii'', ''bin'', ''bool'', ''breakpoint'', ''bytearray'',
     ''bytes'', ''callable'', ''chr'', ''classmethod'', ''compile'', ''complex'',
     ''copyright'', ''credits'', ''delattr'', ''dict'', ''dir'', ''divmod'', ''enumerate'',
     ''eval'', ''exec'', ''exit'', ''filter'', ''float'', ''format'', ''frozenset'',
     ''getattr'', ''globals'', ''hasattr'', ''hash'', ''help'', ''hex'', ''id'', ''input'',
     ''int'', ''isinstance'', ''issubclass'', ''iter'', ''len'', ''license'', ''list'',
     ''locals'', ''map'', ''max'', ''memoryview'', ''min'', ''next'', ''object'', ''oct'',
     ''open'', ''ord'', ''pow'', ''print'', ''property'', ''quit'', ''range'', ''repr'',
     ''reversed'', ''round'', ''set'', ''setattr'', ''slice'', ''sorted'', ''staticmethod'',
     ''str'', ''sum'', ''super'', ''tuple'', ''type'', ''vars'', ''zip'',
     ''__build_class__'', ''__debug__'', ''__doc__'', ''__import__'', ''__loader__'',
     ''__name__'', ''__package__'', ''__spec__'',
     ''Ellipsis'', ''False'', ''None'', ''NotImplemented'', ''True'',
     ''ArithmeticError'', ''AssertionError'', ''AttributeError'', ''BaseException'',
     ''BlockingIOError'', ''BrokenPipeError'', ''BufferError'', ''BytesWarning'',
     ''ChildProcessError'', ''ConnectionAbortedError'', ''ConnectionError'',
     ''ConnectionRefusedError'', ''ConnectionResetError'', ''DeprecationWarning'',
     ''EOFError'', ''EnvironmentError'', ''Exception'', ''FileExistsError'',
     ''FileNotFoundError'', ''FloatingPointError'', ''FutureWarning'', ''GeneratorExit'',
     ''IOError'', ''ImportError'', ''ImportWarning'', ''IndentationError'', ''IndexError'',
     ''InterruptedError'', ''IsADirectoryError'', ''KeyError'', ''KeyboardInterrupt'',
     ''LookupError'', ''MemoryError'', ''ModuleNotFoundError'', ''NameError'',
     ''NotADirectoryError'', ''NotImplementedError'', ''OSError'', ''OverflowError'',
     ''PendingDeprecationWarning'', ''PermissionError'', ''ProcessLookupError'',
     ''RecursionError'', ''ReferenceError'', ''ResourceWarning'', ''RuntimeError'',
     ''RuntimeWarning'', ''StopAsyncIteration'', ''StopIteration'', ''SyntaxError'',
     ''SyntaxWarning'', ''SystemError'', ''SystemExit'', ''TabError'', ''TimeoutError'',
     ''TypeError'', ''UnboundLocalError'', ''UnicodeDecodeError'', ''UnicodeEncodeError'',
     ''UnicodeError'', ''UnicodeTranslateError'', ''UnicodeWarning'', ''UserWarning'',
     ''ValueError'', ''Warning'', ''ZeroDivisionError'',
     ''get_ipython'', ''display'', ''In'', ''Out'']"

text \<open>The first of the names that the namespace does not bind is the one Python reports.\<close>

definition resolve :: "namespace \<Rightarrow> string list \<Rightarrow> py_error + unit" where
  "resolve ns names =
     (case find (\<lambda>n. n \<notin> set ns) names of
        None \<Rightarrow> Inr ()
      | Some n \<Rightarrow> Inl (NameError n))"

text \<open>
  The name an import binds: the \<^verbatim>\<open>as\<close> name when there is one, and else the top-level
  package (\<^verbatim>\<open>import a.b\<close> binds \<^verbatim>\<open>a\<close>). \<^verbatim>\<open>from m import *\<close> binds what \<open>m\<close> exports.
\<close>

fun import_binding :: "import_alias \<Rightarrow> string" where
  "import_binding (Alias n None) = top_package n"
| "import_binding (Alias n (Some a)) = a"

fun from_binding :: "(string \<Rightarrow> string list) \<Rightarrow> string \<Rightarrow> import_alias \<Rightarrow> string list" where
  "from_binding star m (Alias n None) = (if n = ''*'' then star m else [n])"
| "from_binding star m (Alias n (Some a)) = [a]"

fun exec_stmt :: "(string \<Rightarrow> string list) \<Rightarrow> namespace \<Rightarrow> stmt \<Rightarrow> py_error + namespace"
  and exec_block :: "(string \<Rightarrow> string list) \<Rightarrow> namespace \<Rightarrow> stmt list \<Rightarrow> py_error + namespace"
where
  "exec_stmt star ns (Import as) = Inr (map import_binding as @ ns)"
| "exec_stmt star ns (ImportFrom m as) = Inr (concat (map (from_binding star m) as) @ ns)"
| "exec_stmt star ns (FunctionDef f ps ds body) =
     (case resolve ns (concat (map loads ds)) of
        Inl e \<Rightarrow> Inl e
      | Inr u \<Rightarrow> Inr (f # ns))"
| "exec_stmt star ns (Assign ts v) =
     (case resolve ns (loads v @ concat (map target_loads ts)) of
        Inl e \<Rightarrow> Inl e
      | Inr u \<Rightarrow> Inr (concat (map bound_names ts) @ ns))"
| "exec_stmt star ns (ExprStmt e) =
     (case resolve ns (loads e) of
        Inl e \<Rightarrow> Inl e
      | Inr u \<Rightarrow> Inr ns)"
| "exec_stmt star ns (For t i body) =
     (case resolve ns (loads i @ target_loads t) of
        Inl e \<Rightarrow> Inl e
      | Inr u \<Rightarrow> exec_block star (bound_names t @ ns) body)"
| "exec_stmt star ns (IfStmt c body orelse) =
     (case resolve ns (loads c) of
        Inl e \<Rightarrow> Inl e
      | Inr u \<Rightarrow>
          (case exec_block star ns body of
             Inl e \<Rightarrow> Inl e
           | Inr ns' \<Rightarrow> exec_block star ns' orelse))"
| "exec_stmt star ns (Return e) =
     (case resolve ns (loads e) of
        Inl e \<Rightarrow> Inl e
      | Inr u \<Rightarrow> Inr ns)"
| "exec_block star ns [] = Inr ns"
| "exec_block star ns (s # ss) =
     (case exec_stmt star ns s of
        Inl e \<Rightarrow> Inl e
      | Inr ns' \<Rightarrow> exec_block star ns' ss)"

fun run_cells :: "(string \<Rightarrow> string list) \<Rightarrow> namespace \<Rightarrow> stmt list list \<Rightarrow> py_error + namespace"
where
  "run_cells star ns [] = Inr ns"
| "run_cells star ns (c # cs) =
     (case exec_block star ns c of
        Inl e \<Rightarrow> Inl e
      | Inr ns' \<Rightarrow> run_cells star ns' cs)"

definition run_chapter :: "(string \<Rightarrow> string list) \<Rightarrow> document \<Rightarrow> py_error + namespace" where
  "run_chapter star d = run_cells star builtins (code_cells d)"

definition run_error :: "py_error + namespace \<Rightarrow> py_error option" where
  "run_error r = (case r of Inl e \<Rightarrow> Some e | Inr ns \<Rightarrow> None)"

section \<open>The table of contents\<close>

text \<open>
  The file \<^verbatim>\<open>_toc.yml\<close> lists the book's root document and then its parts, each with a
  caption, the flag \<^verbatim>\<open>numbered\<close> and its chapters; a chapter is named by its file name
  without extension. Entries that the file comments out are no entries.
\<close>

datatype toc_entry = File string | Part string bool "string list"

definition toc :: "toc_entry list" where
  "toc =
    [File ''intro'',
     Part ''Coding'' True
       [''code-preliminaries'', ''code-basics'', ''code-advanced'', ''code-where''],
     Part ''Workflow'' True
       [''wrkflow-best-practice'', ''wrkflow-advcd-best-practice'', ''wrkflow-command-line''],
     Part ''Data'' True
       [''data-analysis-quickstart'', ''data-intro'', ''data-exploratory-analysis'',
        ''data-read-and-write'', ''data-extraction'', ''data-sharing'', ''data-advanced''],
     Part ''Data Visualisation'' True
       [''vis-intro'', ''vis-common-plots'', ''vis-animation''],
     Part ''Econometrics'' True
       [''econmt-probability-random'', ''econmt-statistics'', ''econmt-regression''],
     Part ''Text Analysis'' True
       [''text-intro'', ''text-nlp''],
     Part ''Time'' True
       [''time-intro'', ''time-series'', ''time-fcasts-env''],
     Part ''Geospatial'' True
       [''geo-intro'', ''geo-vis''],
     Part ''Mathematics with Code'' True
       [''maths-maths-coding''],
     Part ''Automation'' True
       [''auto-research-outputs''],
     Part ''Coming from ...'' False
       [''coming-from-stata'', ''coming-from-matlab'', ''coming-from-r'',
        ''coming-from-excel''],
     Part ''Elsewhere'' False
       [''zreferences'']]"

fun entry_files :: "toc_entry \<Rightarrow> string list" where
  "entry_files (File f) = [f]"
| "entry_files (Part caption numbered fs) = fs"

definition toc_files :: "string list" where
  "toc_files = concat (map entry_files toc)"

section \<open>The date conversion of the exploratory-data-analysis chapter\<close>

text \<open>
  \<^verbatim>\<open>
  def convert_date_code_to_datetime(date):
      start_code = 16436
      return pd.to_datetime("01-01-2005") + pd.DateOffset(days=date - start_code)
  \<close>
  The function is the chapter's; \<^verbatim>\<open>pd.to_datetime\<close>, \<^verbatim>\<open>pd.DateOffset\<close> and the addition
  of a timestamp and an offset are pandas'. A pandas timestamp is a count of nanoseconds
  since 1970-01-01 00:00 (its \<^verbatim>\<open>value\<close>) kept in 64 bits, so it reaches from 1677-09-21
  to 2262-04-11. An offset of \<open>k\<close> days is added on Python's \<^verbatim>\<open>datetime\<close>, which holds
  the years 1 to 9999 and raises \<^verbatim>\<open>OverflowError\<close> beyond them (\<open>DateOverflowError\<close>
  below); the sum is then turned into a timestamp again, which raises
  \<^verbatim>\<open>OutOfBoundsDatetime\<close> outside of the 64 bits.
\<close>

datatype date_error = ParserError | OutOfBoundsDatetime | DateOverflowError | OtherFormat

text \<open>The day number of a date of the proleptic Gregorian calendar, 1970-01-01 being day 0:
  years are counted from March, in eras of 400 years (146097 days).\<close>

definition days_from_civil :: "int \<Rightarrow> int \<Rightarrow> int \<Rightarrow> int" where
  "days_from_civil y m d =
     (let y' = (if m \<le> 2 then y - 1 else y);
          era = y' div 400;
          yoe = y' - era * 400;
          mp = (m + 9) mod 12;
          doy = (153 * mp + 2) div 5 + d - 1;
          doe = yoe * 365 + yoe div 4 - yoe div 100 + doy
      in era * 146097 + doe - 719468)"

text \<open>The date (year, month, day) of a day number: the inverse computation.\<close>

definition civil_from_days :: "int \<Rightarrow> int \<times> int \<times> int" where
  "civil_from_days z =
     (let z' = z + 719468;
          era = z' div 146097;
          doe = z' - era * 146097;
          yoe = (doe - doe div 1460 + doe div 36524 - doe div 146096) div 365;
          doy = doe - (365 * yoe + yoe div 4 - yoe div 100);
          mp = (5 * doy + 2) div 153;
          d = doy - (153 * mp + 2) div 5 + 1;
          m = (if mp < 10 then mp + 3 else mp - 9);
          y = yoe + era * 400
      in (if m \<le> 2 then y + 1 else y, m, d))"

definition leap_year :: "int \<Rightarrow> bool" where
  "leap_year y = (y mod 4 = 0 \<and> y mod 100 > 0 \<or> y mod 400 = 0)"

definition days_in_month :: "int \<Rightarrow> int \<Rightarrow> int" where
  "days_in_month y m =
     (if m = 2 then (if leap_year y then 29 else 28)
      else if m = 4 \<or> m = 6 \<or> m = 9 \<or> m = 11 then 30 else 31)"

datatype timestamp = Timestamp (nanoseconds: int)

datatype date_offset = DateOffset (days: int)

definition ns_per_day :: int where
  "ns_per_day = 86400 * 1000000000"

text \<open>The least and the greatest count a timestamp holds (the least 64-bit number stands
  for "not a time"), and the first and last day of Python's \<^verbatim>\<open>datetime\<close>.\<close>

definition min_ns :: int where
  "min_ns = - (2 ^ 63 - 1)"

definition max_ns :: int where
  "max_ns = 2 ^ 63 - 1"

definition min_day :: int where
  "min_day = days_from_civil 1 1 1"

definition max_day :: int where
  "max_day = days_from_civil 9999 12 31"

text \<open>The timestamp of the midnight that begins a day, where the 64 bits hold it.\<close>

definition timestamp_of_day :: "int \<Rightarrow> date_error + timestamp" where
  "timestamp_of_day n =
     (if n * ns_per_day < min_ns \<or> max_ns < n * ns_per_day then Inl OutOfBoundsDatetime
      else Inr (Timestamp (n * ns_per_day)))"

definition date_of :: "timestamp \<Rightarrow> int \<times> int \<times> int" where
  "date_of t = civil_from_days (nanoseconds t div ns_per_day)"

text \<open>
  A timestamp plus an offset of whole days: the days are added on the \<^verbatim>\<open>datetime\<close> of
  the timestamp, and the sum becomes a timestamp again.
\<close>

fun plus_offset :: "timestamp \<Rightarrow> date_offset \<Rightarrow> date_error + timestamp" where
  "plus_offset (Timestamp v) (DateOffset k) =
     (if v div ns_per_day + k < min_day \<or> max_day < v div ns_per_day + k
      then Inl DateOverflowError
      else if v + k * ns_per_day < min_ns \<or> max_ns < v + k * ns_per_day
      then Inl OutOfBoundsDatetime
      else Inr (Timestamp (v + k * ns_per_day)))"

text \<open>
  \<^verbatim>\<open>pd.to_datetime\<close> on a string of the shape of the chapter's literal: one or two
  digits, a dash, one or two digits, a dash and four digits. pandas reads the month
  first, and the day first when the first number is no month; a date the calendar does
  not have is a parse error, and a date outside of the 64 bits is out of bounds. pandas
  reads many further formats; for a string of another shape the model answers
  \<open>OtherFormat\<close> and says nothing about what pandas does.
\<close>

fun digits_value :: "nat \<Rightarrow> string \<Rightarrow> nat option" where
  "digits_value acc [] = Some acc"
| "digits_value acc (c # cs) =
     (if 48 \<le> (of_char c :: nat) \<and> (of_char c :: nat) \<le> 57
      then digits_value (10 * acc + (of_char c - 48)) cs
      else None)"

definition number :: "string \<Rightarrow> nat option" where
  "number s = (if s = [] then None else digits_value 0 s)"

fun split_dash :: "string \<Rightarrow> string list" where
  "split_dash [] = [[]]"
| "split_dash (c # cs) =
     (if c = CHR ''-'' then [] # split_dash cs
      else (case split_dash cs of [] \<Rightarrow> [[c]] | w # ws \<Rightarrow> (c # w) # ws))"

definition month_first :: "int \<Rightarrow> int \<Rightarrow> int \<Rightarrow> date_error + timestamp" where
  "month_first a b y =
     (let m = (if 12 < a then b else a);
          d = (if 12 < a then a else b)
      in if 1 \<le> y \<and> 1 \<le> m \<and> m \<le> 12 \<and> 1 \<le> d \<and> d \<le> days_in_month y m
         then timestamp_of_day (days_from_civil y m d)
         else Inl ParserError)"

definition to_datetime :: "string \<Rightarrow> date_error + timestamp" where
  "to_datetime s =
     (case split_dash s of
        [a, b, c] \<Rightarrow>
          (case (number a, number b, number c) of
             (Some x, Some y, Some z) \<Rightarrow>
               (if length a \<le> 2 \<and> length b \<le> 2 \<and> length c = 4
                then month_first (int x) (int y) (int z)
                else Inl OtherFormat)
           | _ \<Rightarrow> Inl OtherFormat)
      | _ \<Rightarrow> Inl OtherFormat)"

definition convert_date_code_to_datetime :: "int \<Rightarrow> date_error + timestamp" where
  "convert_date_code_to_datetime date =
     (let start_code = 16436
      in case to_datetime ''01-01-2005'' of
           Inl e \<Rightarrow> Inl e
         | Inr t \<Rightarrow> plus_offset t (DateOffset (date - start_code)))"

section \<open>The cross-correlation function of the time-series chapter\<close>

text \<open>
  \<^verbatim>\<open>
  def ccf_stats(x, y, lag_max=None):
      if not lag_max:
          lag_max = int(10 * np.log10(min(len(x), len(y)) / 2))
      result = ss.correlate(x - np.mean(x), y - np.mean(y), method="direct") / (
          np.std(y) * np.std(x) * len(y)
      )
      length = (len(result) - 1) // 2
      lo = length - lag_max
      hi = length + (lag_max + 1)
      return result[lo:hi]
  \<close>
  The series are lists of numbers. Floating-point numbers are modelled as real numbers,
  so rounding is left out, and a division by a zero standard deviation, which numpy
  answers with \<^verbatim>\<open>nan\<close> or \<^verbatim>\<open>inf\<close> entries, gives HOL's \<open>x / 0 = 0\<close>: the lengths and
  positions of the entries are the program's, the value of such an entry is not.
\<close>

datatype calc_error = OverflowError | ValueError | KeyError string

text \<open>\<^verbatim>\<open>np.mean\<close> and \<^verbatim>\<open>np.std\<close> (the population standard deviation).\<close>

definition mean :: "real list \<Rightarrow> real" where
  "mean xs = sum_list xs / real (length xs)"

definition std :: "real list \<Rightarrow> real" where
  "std xs = sqrt (mean (map (\<lambda>v. (v - mean xs)\<^sup>2) xs))"

text \<open>
  \<^verbatim>\<open>scipy.signal.correlate(a, b, method="direct")\<close> in its default mode \<^verbatim>\<open>full\<close>: entry
  \<open>k\<close> of the result, for \<open>k\<close> from 0 to \<open>length a + length b - 2\<close>, is the sum over \<open>l\<close>
  of \<open>a\<^sub>l * b\<^sub>m\<close> with \<open>m = l - k + (length b - 1)\<close>, where \<open>b\<^sub>m\<close> is 0 outside of \<open>b\<close>.
  Entry \<open>length b - 1\<close> pairs the two series with no shift (lag 0).
\<close>

definition at_or_zero :: "real list \<Rightarrow> int \<Rightarrow> real" where
  "at_or_zero b m = (if 0 \<le> m \<and> m < int (length b) then b ! nat m else 0)"

definition correlate :: "real list \<Rightarrow> real list \<Rightarrow> real list" where
  "correlate a b =
     map (\<lambda>k. \<Sum>l \<leftarrow> [0..<length a]. a ! l * at_or_zero b (int l - int k + (int (length b) - 1)))
       [0..<length a + length b - 1]"

text \<open>Python's \<^verbatim>\<open>xs[lo:hi]\<close>: a negative bound counts from the end, and both bounds are
  clipped to the list.\<close>

definition slice_bound :: "nat \<Rightarrow> int \<Rightarrow> nat" where
  "slice_bound n i = (if i < 0 then nat (max (i + int n) 0) else min (nat i) n)"

definition py_slice :: "'a list \<Rightarrow> int \<Rightarrow> int \<Rightarrow> 'a list" where
  "py_slice xs lo hi =
     (let l = slice_bound (length xs) lo; h = slice_bound (length xs) hi
      in take (h - l) (drop l xs))"

text \<open>Python's \<^verbatim>\<open>int\<close> of a float cuts the fraction off, towards zero.\<close>

definition py_int :: "real \<Rightarrow> int" where
  "py_int r = (if 0 \<le> r then \<lfloor>r\<rfloor> else \<lceil>r\<rceil>)"

text \<open>
  The default lag bound. For an empty series \<^verbatim>\<open>np.log10(0.0)\<close> is minus infinity, which
  \<^verbatim>\<open>int\<close> refuses with an \<^verbatim>\<open>OverflowError\<close>.
\<close>

definition default_lag :: "nat \<Rightarrow> calc_error + int" where
  "default_lag n =
     (if n = 0 then Inl OverflowError else Inr (py_int (10 * log 10 (real n / 2))))"

text \<open>The whole normalised cross-correlation, before the window is cut out.\<close>

definition ccf_full :: "real list \<Rightarrow> real list \<Rightarrow> real list" where
  "ccf_full x y =
     map (\<lambda>v. v / (std y * std x * real (length y)))
       (correlate (map (\<lambda>v. v - mean x) x) (map (\<lambda>v. v - mean y) y))"

text \<open>
  \<^verbatim>\<open>not lag_max\<close> holds for \<^verbatim>\<open>None\<close> and for 0. numpy refuses to correlate an empty
  array (\<^verbatim>\<open>ValueError\<close>).
\<close>

definition ccf_stats :: "real list \<Rightarrow> real list \<Rightarrow> int option \<Rightarrow> calc_error + real list" where
  "ccf_stats x y lag_max =
     (case (if lag_max = None \<or> lag_max = Some 0
            then default_lag (min (length x) (length y))
            else Inr (the lag_max)) of
        Inl e \<Rightarrow> Inl e
      | Inr lag \<Rightarrow>
          if x = [] \<or> y = [] then Inl ValueError
          else
            (let result = ccf_full x y;
                 length = (int (List.length result) - 1) div 2;
                 lo = length - lag;
                 hi = length + (lag + 1)
             in Inr (py_slice result lo hi)))"

section \<open>The inflation adjustment of the time-series chapter\<close>

text \<open>
  \<^verbatim>\<open>
  cdf["cheddar_i_adjust"] = (
      cdf.loc["2021-12-31", "inflation"] * cdf["cheddar"] / cdf["inflation"]
  )
  \<close>
  The frame \<^verbatim>\<open>cdf\<close> has one row per year, labelled by the last day of the year, with the
  columns \<^verbatim>\<open>inflation\<close> and \<^verbatim>\<open>cheddar\<close>. \<^verbatim>\<open>cdf.loc[label, column]\<close> raises \<^verbatim>\<open>KeyError\<close>
  for a label the index does not have. The product is formed first and then divided,
  row by row. The multiplication and the division are parameters, so that the same
  definition is read with exact arithmetic and with the rounding arithmetic of the
  64-bit floating-point numbers the frame holds.
\<close>

record row =
  inflation :: real
  cheddar :: real

type_synonym frame = "(string \<times> row) list"

definition loc :: "frame \<Rightarrow> string \<Rightarrow> calc_error + row" where
  "loc cdf label = (case map_of cdf label of None \<Rightarrow> Inl (KeyError label) | Some r \<Rightarrow> Inr r)"

definition cheddar_i_adjust ::
  "(real \<Rightarrow> real \<Rightarrow> real) \<Rightarrow> (real \<Rightarrow> real \<Rightarrow> real) \<Rightarrow> frame \<Rightarrow> calc_error + (string \<times> real) list"
where
  "cheddar_i_adjust fmul fdiv cdf =
     (case loc cdf ''2021-12-31'' of
        Inl e \<Rightarrow> Inl e
      | Inr base \<Rightarrow>
          Inr (map (\<lambda>(label, r). (label, fdiv (fmul (inflation base) (cheddar r)) (inflation r)))
                 cdf))"

text \<open>
  Rounding to the nearest 64-bit floating-point number, ties to the even significand:
  a number between \<open>2\<^sup>e\<close> and \<open>2\<^sup>e\<^sup>+\<^sup>1\<close> is rounded to a multiple of \<open>2\<^sup>e\<^sup>-\<^sup>5\<^sup>2\<close>. The
  exponent is not bounded here: overflow to infinity and the subnormal numbers are left
  out.
\<close>

definition round_half_even :: "real \<Rightarrow> int" where
  "round_half_even r =
     (let f = \<lfloor>r\<rfloor>
      in if r - of_int f < 1 / 2 then f
         else if 1 / 2 < r - of_int f then f + 1
         else if even f then f else f + 1)"

definition round_double :: "real \<Rightarrow> real" where
  "round_double x =
     (if x = 0 then 0
      else (let s = 2 powr of_int (\<lfloor>log 2 \<bar>x\<bar>\<rfloor> - 52)
            in of_int (round_half_even (x / s)) * s))"

definition float_times :: "real \<Rightarrow> real \<Rightarrow> real" where
  "float_times a b = round_double (a * b)"

definition float_over :: "real \<Rightarrow> real \<Rightarrow> real" where
  "float_over a b = round_double (a / b)"

section \<open>Properties of the pre-commit configuration\<close>

text \<open>
  Claim C6. The configuration declares a hook for each of the three hygiene concerns:
  the large-file check \<^verbatim>\<open>check-added-large-files\<close>, the notebook output stripper
  \<^verbatim>\<open>nbstripout\<close>, and the formatters and linter \<^verbatim>\<open>black\<close>, \<^verbatim>\<open>black-nb\<close> and
  \<^verbatim>\<open>flake8\<close>. Each of the five is declared exactly once, under one fixed revision
  (a version tag, not a branch), and the file declares no other hook.
\<close>

theorem pre_commit_hooks_pinned:
  "hook_revs pre_commit_config ''check-added-large-files'' = [''v4.0.1'']
   \<and> hook_revs pre_commit_config ''nbstripout'' = [''0.4.0'']
   \<and> hook_revs pre_commit_config ''black'' = [''21.6b0'']
   \<and> hook_revs pre_commit_config ''black-nb'' = [''0.5.0'']
   \<and> hook_revs pre_commit_config ''flake8'' = [''3.9.2'']
   \<and> hook_ids pre_commit_config =
       [''check-added-large-files'', ''nbstripout'', ''black'', ''flake8'', ''black-nb'']"
  by (simp add: hook_revs_def hook_ids_def pre_commit_config_def bare_hook_def)

section \<open>Properties of the chapters\<close>

text \<open>
  Claim C5. In every notebook, every code cell has \<^verbatim>\<open>execution_count\<close> null and an empty
  list of outputs: the notebooks are stored stripped, as the \<^verbatim>\<open>nbstripout\<close> hook leaves
  them.
\<close>

theorem notebook_outputs_stripped:
  "\<forall>nb \<in> set notebooks. \<forall>c \<in> set (cells nb).
     is_code c \<longrightarrow> execution_count c = None \<and> outputs c = []"
  by (simp add: notebooks_def data_exploratory_analysis_def rbc_def time_series_def)

theorem notebook_outputs_stripped_witness:
  "rbc \<in> set notebooks \<and> Code None [] rbc_cell_2 \<in> set (cells rbc)
   \<and> is_code (Code None [] rbc_cell_2)
   \<and> execution_count (Code None [] rbc_cell_2) = None
   \<and> outputs (Code None [] rbc_cell_2) = []"
  using notebook_outputs_stripped by (simp add: notebooks_def rbc_def)


subsection \<open>What the chapters import, define and compute\<close>

lemma imported_packages_chapters:
  "map imported_packages chapters =
     [[''pandas'', ''matplotlib'', ''numpy'', ''itertools'', ''pandas_profiling'',
       ''dataprep'', ''IPython''],
      [''matplotlib'', ''statsmodels'', ''sympy'', ''numpy''],
      [''pandas'', ''statsmodels'', ''rich'', ''numpy'', ''matplotlib'', ''requests'',
       ''pandas_datareader'', ''datetime'', ''scipy''],
      [''numpy'', ''pandas'', ''matplotlib'', ''plotnine'', ''altair'', ''vega_datasets'',
       ''myst_nb''],
      []]"
  by code_simp

text \<open>No chapter imports a module named like a chapter of the table of contents, and a
  function that a chapter defines is named in that chapter only.\<close>

lemma imports_name_no_chapter:
  "list_all (\<lambda>d. list_all (\<lambda>p. p \<notin> set toc_files) (imported_packages d)) chapters"
  by code_simp

lemma functions_stay_home:
  "list_all (\<lambda>d. list_all (\<lambda>f. f \<in> set (names_used d) \<longrightarrow> f \<in> set (functions_of d))
       (concat (map functions_of chapters))) chapters"
  by code_simp






text \<open>
  Claim C1 says that every chapter runs from the top without an error, every name being
  bound before it is read. The real-business-cycle notebook breaks it in its first code
  cell: the cell calls \<^verbatim>\<open>pd.set_option\<close>, and nothing imports pandas as \<^verbatim>\<open>pd\<close> (the
  time-series notebook, which opens with the same lines, does). Unless \<^verbatim>\<open>sympy\<close>
  exported a name \<^verbatim>\<open>pd\<close>, which it does not, the run stops with \<^verbatim>\<open>NameError\<close>.
\<close>

theorem rbc_raises_name_error:
  "''pd'' \<notin> set (star ''sympy'') \<Longrightarrow> run_chapter star rbc = Inl (NameError ''pd'')"
  by (simp add: run_chapter_def rbc_def rbc_cell_2_def builtins_def resolve_def
      top_package_def)

theorem rbc_raises_name_error_witness:
  "''pd'' \<notin> set ((\<lambda>m. if m = ''sympy'' then [''symbols'', ''Symbol'', ''pi'', ''solve''] else [])
      ''sympy'')
   \<and> run_chapter (\<lambda>m. if m = ''sympy'' then [''symbols'', ''Symbol'', ''pi'', ''solve''] else [])
        rbc = Inl (NameError ''pd'')"
  using rbc_raises_name_error
    [of "\<lambda>m. if m = ''sympy'' then [''symbols'', ''Symbol'', ''pi'', ''solve''] else []"]
  by simp

text \<open>The other three documents with code run through: every name they read is bound
  by then. (None of them reads a name that a star import would have to bind.)\<close>

lemma other_chapters_bind_their_names:
  "run_error (run_chapter (\<lambda>m. []) data_exploratory_analysis) = None"
  "run_error (run_chapter (\<lambda>m. []) time_series) = None"
  "run_error (run_chapter (\<lambda>m. []) common_plots) = None"
  by code_simp+


section \<open>Properties of the date conversion\<close>

lemma to_datetime_literal: "to_datetime ''01-01-2005'' = Inr (Timestamp 1104537600000000000)"
  by code_simp

lemma datetime_days: "min_day = - 719162" "max_day = 2932896"
  by code_simp+

lemma convert_date_code_to_datetime_cases:
  "convert_date_code_to_datetime d =
     (if d < - 715510 \<or> 2936548 < d then Inl DateOverflowError
      else if d < - 103099 \<or> 110403 < d then Inl OutOfBoundsDatetime
      else Inr (Timestamp (1104537600000000000 + (d - 16436) * 86400000000000)))"
proof -
  have day: "(1104537600000000000 :: int) div ns_per_day = 12784"
    by (simp add: ns_per_day_def)
  have "convert_date_code_to_datetime d =
      plus_offset (Timestamp 1104537600000000000) (DateOffset (d - 16436))"
    by (simp add: convert_date_code_to_datetime_def to_datetime_literal)
  also have "\<dots> =
     (if d < - 715510 \<or> 2936548 < d then Inl DateOverflowError
      else if d < - 103099 \<or> 110403 < d then Inl OutOfBoundsDatetime
      else Inr (Timestamp (1104537600000000000 + (d - 16436) * 86400000000000)))"
    unfolding plus_offset.simps day datetime_days
    by (auto simp add: ns_per_day_def min_ns_def max_ns_def)
  finally show ?thesis .
qed

text \<open>
  Claim C8, as stated: for every integer date code \<open>d\<close> the function returns the
  timestamp of 2005-01-01 plus \<open>d - 16436\<close> days. It fails for the codes whose date
  the library cannot hold: code 110404 would be 2262-04-12, one day past the last
  timestamp, and raises \<^verbatim>\<open>OutOfBoundsDatetime\<close>; code 3016436 would lie beyond the year
  9999 and raises \<^verbatim>\<open>OverflowError\<close>.
\<close>

theorem convert_date_code_to_datetime_raises:
  "convert_date_code_to_datetime 110404 = Inl OutOfBoundsDatetime
   \<and> convert_date_code_to_datetime 3016436 = Inl DateOverflowError"
  by (simp add: convert_date_code_to_datetime_cases)

text \<open>
  Claim C8, amended. For every integer date code \<open>d\<close> from -103099 to 110403 (the
  codes of the dates 1677-09-22 to 2262-04-11, which a timestamp holds) the function
  returns the timestamp of 2005-01-01 plus \<open>d - 16436\<close> days of 86400 seconds; the
  start code 16436 gives 2005-01-01 itself; and of two codes in that range the greater
  gives the later timestamp. For every other code it raises: \<^verbatim>\<open>OutOfBoundsDatetime\<close>
  from -715510 to 2936548 (the dates of the years 1 to 9999), \<^verbatim>\<open>OverflowError\<close> beyond.
\<close>

theorem convert_date_code_to_datetime_in_range:
  "(- 103099 \<le> d \<and> d \<le> 110403 \<longrightarrow>
      convert_date_code_to_datetime d =
        Inr (Timestamp (1104537600000000000 + (d - 16436) * 86400000000000)))
   \<and> (- 715510 \<le> d \<and> d < - 103099 \<or> 110403 < d \<and> d \<le> 2936548 \<longrightarrow>
      convert_date_code_to_datetime d = Inl OutOfBoundsDatetime)
   \<and> (d < - 715510 \<or> 2936548 < d \<longrightarrow>
      convert_date_code_to_datetime d = Inl DateOverflowError)
   \<and> to_datetime ''01-01-2005'' = Inr (Timestamp 1104537600000000000)
   \<and> date_of (Timestamp 1104537600000000000) = (2005, 1, 1)
   \<and> convert_date_code_to_datetime 16436 = Inr (Timestamp 1104537600000000000)
   \<and> (- 103099 \<le> d \<and> d < d' \<and> d' \<le> 110403 \<longrightarrow>
        (\<exists>t t'. convert_date_code_to_datetime d = Inr t
           \<and> convert_date_code_to_datetime d' = Inr t'
           \<and> nanoseconds t < nanoseconds t'))"
proof -
  have day0: "date_of (Timestamp 1104537600000000000) = (2005, 1, 1)"
    by code_simp
  show ?thesis
    using to_datetime_literal day0
    by (simp add: convert_date_code_to_datetime_cases)
qed

theorem convert_date_code_to_datetime_in_range_witness:
  "(- 103099 :: int) \<le> 16436 \<and> (16436 :: int) < 16437 \<and> (16437 :: int) \<le> 110403
   \<and> convert_date_code_to_datetime 16437 = Inr (Timestamp 1104624000000000000)
   \<and> (\<exists>t t'. convert_date_code_to_datetime 16436 = Inr t
         \<and> convert_date_code_to_datetime 16437 = Inr t'
         \<and> nanoseconds t < nanoseconds t')"
proof -
  from convert_date_code_to_datetime_in_range [of 16437 16437]
  have a: "convert_date_code_to_datetime 16437 = Inr (Timestamp 1104624000000000000)"
    by simp
  from convert_date_code_to_datetime_in_range [of 16436 16437]
  have "\<exists>t t'. convert_date_code_to_datetime 16436 = Inr t
         \<and> convert_date_code_to_datetime 16437 = Inr t'
         \<and> nanoseconds t < nanoseconds t'"
    by auto
  with a show ?thesis by simp
qed

text \<open>The day after the start code is 2 January 2005, code 20088 is 1 January 2015, and
  the last code that has a timestamp is 11 April 2262.\<close>

lemma convert_date_code_to_datetime_examples:
  "map_sum id date_of (convert_date_code_to_datetime 16437) = Inr (2005, 1, 2)"
  "map_sum id date_of (convert_date_code_to_datetime 20088) = Inr (2015, 1, 1)"
  "map_sum id date_of (convert_date_code_to_datetime 110403) = Inr (2262, 4, 11)"
  "map_sum id date_of (convert_date_code_to_datetime (- 103099)) = Inr (1677, 9, 22)"
  by code_simp+

text \<open>\<^verbatim>\<open>pd.to_datetime\<close> reads the day first where the first number is no month, and
  refuses a date the calendar does not have.\<close>

lemma to_datetime_examples:
  "map_sum id date_of (to_datetime ''13-01-2005'') = Inr (2005, 1, 13)"
  "to_datetime ''02-30-2005'' = Inl ParserError"
  "map_sum id date_of (to_datetime ''02-29-2004'') = Inr (2004, 2, 29)"
  "to_datetime ''01-01-1500'' = Inl OutOfBoundsDatetime"
  by code_simp+

section \<open>Properties of the cross-correlation function\<close>

lemma length_correlate: "length (correlate a b) = length a + length b - 1"
  by (simp add: correlate_def)

lemma length_ccf_full: "length (ccf_full x y) = length x + length y - 1"
  by (simp add: ccf_full_def length_correlate)

text \<open>The entry in the middle of the correlation of two series of one length pairs them
  without shift.\<close>

lemma correlate_zero_lag:
  assumes "length a = n" and "length b = n" and "0 < n"
  shows "correlate a b ! (n - 1) = (\<Sum>l \<leftarrow> [0..<n]. a ! l * b ! l)"
proof -
  have k: "n - 1 < length a + length b - 1" using assms by simp
  have "correlate a b ! (n - 1) =
      (\<Sum>l \<leftarrow> [0..<n]. a ! l * at_or_zero b (int l - int (n - 1) + (int n - 1)))"
    using k assms by (simp add: correlate_def)
  also have "\<dots> = (\<Sum>l \<leftarrow> [0..<n]. a ! l * b ! l)"
  proof (rule arg_cong [where f = sum_list], rule map_cong [OF refl])
    fix l assume "l \<in> set [0..<n]"
    then have "l < n" by simp
    then have "int l - int (n - 1) + (int n - 1) = int l" using assms(3) by simp
    then show "a ! l * at_or_zero b (int l - int (n - 1) + (int n - 1)) = a ! l * b ! l"
      using \<open>l < n\<close> assms(2) by (simp add: at_or_zero_def)
  qed
  finally show ?thesis .
qed

lemma ccf_full_zero_lag:
  assumes "length x = n" and "length y = n" and "0 < n"
  shows "ccf_full x y ! (n - 1) =
    (\<Sum>l \<leftarrow> [0..<n]. (x ! l - mean x) * (y ! l - mean y)) / (std y * std x * real n)"
proof -
  have k: "n - 1 < length (correlate (map (\<lambda>v. v - mean x) x) (map (\<lambda>v. v - mean y) y))"
    using assms by (simp add: length_correlate)
  have "correlate (map (\<lambda>v. v - mean x) x) (map (\<lambda>v. v - mean y) y) ! (n - 1)
      = (\<Sum>l \<leftarrow> [0..<n]. map (\<lambda>v. v - mean x) x ! l * map (\<lambda>v. v - mean y) y ! l)"
    using assms by (intro correlate_zero_lag) simp_all
  also have "\<dots> = (\<Sum>l \<leftarrow> [0..<n]. (x ! l - mean x) * (y ! l - mean y))"
    using assms by (intro arg_cong [where f = sum_list] map_cong [OF refl]) simp
  finally show ?thesis
    using k assms by (simp add: ccf_full_def)
qed

text \<open>The slice of the function, for a lag bound that fits.\<close>

lemma py_slice_window:
  assumes "length xs = 2 * n - 1" and "0 \<le> k" and "k \<le> int n - 1"
  shows "py_slice xs (int n - 1 - k) (int n - 1 + (k + 1)) =
           take (nat (2 * k + 1)) (drop (n - 1 - nat k) xs)"
proof -
  have lo: "slice_bound (length xs) (int n - 1 - k) = n - 1 - nat k"
    using assms by (simp add: slice_bound_def)
  have hi: "slice_bound (length xs) (int n - 1 + (k + 1)) = n + nat k"
    using assms by (simp add: slice_bound_def)
  have d: "n + nat k - (n - 1 - nat k) = nat (2 * k + 1)"
    using assms by linarith
  show ?thesis
    unfolding py_slice_def Let_def lo hi d ..
qed

lemma ccf_stats_with_lag:
  assumes "length x = n" and "length y = n" and "0 < n"
    and "0 \<le> k" and "k \<le> int n - 1"
    and "lag_max = Some k \<and> k \<noteq> 0 \<or> lag_max = None \<and> default_lag n = Inr k"
  shows "ccf_stats x y lag_max =
    Inr (take (nat (2 * k + 1)) (drop (n - 1 - nat k) (ccf_full x y)))"
proof -
  have ne: "x \<noteq> []" "y \<noteq> []" using assms by auto
  have len: "length (ccf_full x y) = 2 * n - 1"
    using assms by (simp add: length_ccf_full)
  have mid: "(int (length (ccf_full x y)) - 1) div 2 = int n - 1"
    using assms len by simp
  have "ccf_stats x y lag_max =
      Inr (py_slice (ccf_full x y) (int n - 1 - k) (int n - 1 + (k + 1)))"
    using assms(1,2,6) ne mid by (auto simp add: ccf_stats_def Let_def)
  then show ?thesis
    using py_slice_window [OF len assms(4,5)] by simp
qed

text \<open>The default lag bound fits every series of two or more values:
  \<open>10 * log\<^sub>1\<^sub>0 (n / 2) < n\<close>, since \<open>n\<^sup>1\<^sup>0 < 2\<^sup>1\<^sup>0 * 10\<^sup>n\<close>.\<close>

lemma pow10_step:
  fixes n :: nat
  assumes "4 \<le> n"
  shows "Suc n ^ 10 \<le> 10 * n ^ 10"
proof -
  have "4 * Suc n \<le> 5 * n" using assms by simp
  then have "(4 * Suc n) ^ 10 \<le> (5 * n) ^ 10" by (rule power_mono) simp
  then have "4 ^ 10 * Suc n ^ 10 \<le> 5 ^ 10 * n ^ 10" by (simp only: power_mult_distrib)
  also have "\<dots> \<le> 4 ^ 10 * (10 * n ^ 10)" by simp
  finally show ?thesis by simp
qed

lemma pow10_bound:
  fixes n :: nat
  shows "n ^ 10 < 1024 * 10 ^ n"
proof (induction n rule: less_induct)
  case (less n)
  consider "n = 0" | "n = 1" | "n = 2" | "n = 3" | "n = 4" | "5 \<le> n" by linarith
  then show ?case
  proof cases
    case 6
    then obtain m where m: "n = Suc m" "4 \<le> m" by (cases n) auto
    have "Suc m ^ 10 \<le> 10 * m ^ 10" using m(2) by (rule pow10_step)
    also have "\<dots> < 10 * (1024 * 10 ^ m)" using less.IH [of m] m(1) by simp
    finally show ?thesis using m(1) by simp
  qed simp_all
qed

lemma ten_log_less:
  fixes n :: nat
  assumes "2 \<le> n"
  shows "10 * log 10 (real n / 2) < real n"
proof -
  have pos: "0 < real n / 2" using assms by simp
  have "(real n / 2) ^ 10 < 10 ^ n"
  proof -
    have "real (n ^ 10) < real (1024 * 10 ^ n)"
      using pow10_bound [of n] by (simp only: of_nat_less_iff)
    then have "real n ^ 10 < 2 ^ 10 * 10 ^ n" by simp
    then show ?thesis by (simp add: power_divide field_simps)
  qed
  then have "log 10 ((real n / 2) ^ 10) < log 10 (10 ^ n)"
    using pos by (subst log_less_cancel_iff) simp_all
  then show ?thesis using pos by (simp add: log_nat_power)
qed

lemma default_lag_bounds:
  assumes "2 \<le> n"
  shows "default_lag n = Inr (py_int (10 * log 10 (real n / 2)))"
    and "0 \<le> py_int (10 * log 10 (real n / 2))"
    and "py_int (10 * log 10 (real n / 2)) \<le> int n - 1"
proof -
  have nn: "0 \<le> 10 * log 10 (real n / 2)" using assms by simp
  show "default_lag n = Inr (py_int (10 * log 10 (real n / 2)))"
    using assms by (simp add: default_lag_def)
  show "0 \<le> py_int (10 * log 10 (real n / 2))"
    using nn by (simp add: py_int_def)
  have "\<lfloor>10 * log 10 (real n / 2)\<rfloor> < int n"
    using ten_log_less [OF assms] by (simp add: floor_less_iff)
  then show "py_int (10 * log 10 (real n / 2)) \<le> int n - 1"
    using nn by (simp add: py_int_def)
qed

text \<open>
  Claim C9. For two series of one length \<open>n \<ge> 2\<close>, and a lag bound between 1 and
  \<open>n - 1\<close> or none (the bound used is then the default,
  \<open>int (10 * log\<^sub>1\<^sub>0 (n / 2))\<close>), the function returns a list \<open>r\<close> of exactly
  \<open>2 * k + 1\<close> values for the bound \<open>k\<close> used; entry \<open>i\<close> of \<open>r\<close> is entry
  \<open>n - 1 - k + i\<close> of the full correlation; so the middle entry \<open>r ! k\<close> is the
  zero-lag entry, the normalised sum of the products of the mean-removed series.
\<close>

theorem ccf_stats_window:
  assumes "length x = n" and "length y = n" and "2 \<le> n"
    and "lag_max = None \<or> (\<exists>l. lag_max = Some l \<and> 1 \<le> l \<and> l \<le> int n - 1)"
  shows "\<exists>r k. ccf_stats x y lag_max = Inr r
      \<and> k = (case lag_max of None \<Rightarrow> py_int (10 * log 10 (real n / 2)) | Some l \<Rightarrow> l)
      \<and> 0 \<le> k \<and> k \<le> int n - 1
      \<and> int (length r) = 2 * k + 1
      \<and> (\<forall>i < length r. r ! i = ccf_full x y ! (n - 1 - nat k + i))
      \<and> r ! nat k = ccf_full x y ! (n - 1)
      \<and> ccf_full x y ! (n - 1) =
          (\<Sum>l \<leftarrow> [0..<n]. (x ! l - mean x) * (y ! l - mean y)) / (std y * std x * real n)"
proof -
  define k where "k = (case lag_max of None \<Rightarrow> py_int (10 * log 10 (real n / 2)) | Some l \<Rightarrow> l)"
  define r where "r = take (nat (2 * k + 1)) (drop (n - 1 - nat k) (ccf_full x y))"
  have pos: "0 < n" using assms(3) by simp
  have k0: "0 \<le> k" and k1: "k \<le> int n - 1"
    using assms(4) default_lag_bounds(2,3) [OF assms(3)] by (auto simp add: k_def)
  have how: "lag_max = Some k \<and> k \<noteq> 0 \<or> lag_max = None \<and> default_lag n = Inr k"
    using assms(4) default_lag_bounds(1) [OF assms(3)] by (auto simp add: k_def)
  have res: "ccf_stats x y lag_max = Inr r"
    unfolding r_def by (rule ccf_stats_with_lag [OF assms(1,2) pos k0 k1 how])
  have len: "length (ccf_full x y) = 2 * n - 1"
    using assms by (simp add: length_ccf_full)
  have lr: "length r = nat (2 * k + 1)"
    using k0 k1 len by (simp add: r_def)
  have nth: "r ! i = ccf_full x y ! (n - 1 - nat k + i)" if "i < length r" for i
    using that lr len k0 k1 by (simp add: r_def)
  have mid: "r ! nat k = ccf_full x y ! (n - 1)"
  proof -
    have "nat k < length r" using lr k0 by linarith
    then have "r ! nat k = ccf_full x y ! (n - 1 - nat k + nat k)" by (rule nth)
    moreover have "n - 1 - nat k + nat k = n - 1" using k0 k1 by linarith
    ultimately show ?thesis by simp
  qed
  have "int (length r) = 2 * k + 1" using lr k0 by simp
  then show ?thesis
    using res k0 k1 nth mid ccf_full_zero_lag [OF assms(1,2) pos] k_def by blast
qed

theorem ccf_stats_window_witness:
  "length [1, 2, 3 :: real] = 3 \<and> length [2, 1, 4 :: real] = 3 \<and> (2::nat) \<le> 3
   \<and> (\<exists>l. Some (1::int) = Some l \<and> 1 \<le> l \<and> l \<le> int 3 - 1)
   \<and> (\<exists>r. ccf_stats [1, 2, 3] [2, 1, 4] (Some 1) = Inr r
        \<and> length r = 3
        \<and> r ! 1 = ccf_full [1, 2, 3] [2, 1, 4] ! 2)"
proof -
  have h: "Some (1::int) = None \<or> (\<exists>l. Some (1::int) = Some l \<and> 1 \<le> l \<and> l \<le> int 3 - 1)"
    by simp
  have "length [1, 2, 3 :: real] = 3" "length [2, 1, 4 :: real] = 3" "(2::nat) \<le> 3"
    by simp_all
  from ccf_stats_window [OF this h] show ?thesis by auto
qed

text \<open>An instance of the default: four values on each side give the bound
  \<open>int (10 * log\<^sub>1\<^sub>0 2) = 3\<close>, hence all seven entries of the full correlation.\<close>

lemma default_lag_4: "default_lag 4 = Inr 3"
proof -
  have e: "10 * log 10 2 = log 10 1024"
    using log_nat_power [of "2::real" 10 10] by simp
  have l3: "log 10 1000 = 3"
    using log_nat_power [of "10::real" 10 3] by simp
  have l4: "log 10 10000 = 4"
    using log_nat_power [of "10::real" 10 4] by simp
  have a: "3 \<le> 10 * log 10 2"
    unfolding e l3 [symmetric] by (subst log_le_cancel_iff) simp_all
  have b: "10 * log 10 2 < 4"
    unfolding e l4 [symmetric] by (subst log_less_cancel_iff) simp_all
  have "\<lfloor>10 * log 10 (2::real)\<rfloor> = 3" using a b by (simp add: floor_eq_iff)
  then show ?thesis using a by (simp add: default_lag_def py_int_def)
qed

lemma ccf_stats_default_example:
  "ccf_stats [1, 2, 3, 4] [2, 1, 4, 3] None = Inr (ccf_full [1, 2, 3, 4] [2, 1, 4, 3])"
proof -
  have "ccf_stats [1, 2, 3, 4] [2, 1, 4, 3] None =
      Inr (take (nat (2 * 3 + 1)) (drop (4 - 1 - nat 3) (ccf_full [1, 2, 3, 4] [2, 1, 4, 3])))"
    by (rule ccf_stats_with_lag [where n = 4]) (simp_all add: default_lag_4)
  then show ?thesis by (simp add: length_ccf_full)
qed


section \<open>Properties of the inflation adjustment\<close>

lemma round_half_even_error: "\<bar>of_int (round_half_even r) - r\<bar> \<le> 1 / 2"
proof -
  have "of_int \<lfloor>r\<rfloor> \<le> r" "r < of_int \<lfloor>r\<rfloor> + 1" by linarith+
  then show ?thesis
    by (auto simp add: round_half_even_def Let_def)
qed

text \<open>Rounding to a floating-point number moves a number by at most the fraction
  \<open>2\<^sup>-\<^sup>5\<^sup>3\<close> of its size.\<close>

lemma round_double_error: "\<bar>round_double x - x\<bar> \<le> \<bar>x\<bar> / 2 ^ 53"
proof (cases "x = 0")
  case True
  then show ?thesis by (simp add: round_double_def)
next
  case False
  define e where "e = \<lfloor>log 2 \<bar>x\<bar>\<rfloor>"
  define s :: real where "s = 2 powr of_int (e - 52)"
  have s0: "0 < s" by (simp add: s_def)
  have "of_int e \<le> log 2 \<bar>x\<bar>" by (simp add: e_def)
  then have "2 powr of_int e \<le> \<bar>x\<bar>"
    using False by (simp add: le_log_iff)
  moreover have "s = 2 powr of_int e / 2 ^ 52"
    by (simp add: s_def powr_diff flip: powr_realpow)
  ultimately have sx: "s \<le> \<bar>x\<bar> / 2 ^ 52" by (simp add: divide_right_mono)
  have "round_double x - x = (of_int (round_half_even (x / s)) - x / s) * s"
    using False s0 by (simp add: round_double_def Let_def e_def s_def algebra_simps)
  then have "\<bar>round_double x - x\<bar> = \<bar>of_int (round_half_even (x / s)) - x / s\<bar> * s"
    using s0 by (simp add: abs_mult)
  also have "\<dots> \<le> 1 / 2 * s"
    using round_half_even_error [of "x / s"] s0 by (intro mult_right_mono) simp_all
  also have "\<dots> \<le> 1 / 2 * (\<bar>x\<bar> / 2 ^ 52)"
    using sx by simp
  finally show ?thesis by simp
qed

lemma round_double_between:
  assumes "0 < x" and "2 powr of_int e \<le> x" and "x < 2 powr of_int (e + 1)"
  shows "round_double x =
    of_int (round_half_even (x / 2 powr of_int (e - 52))) * 2 powr of_int (e - 52)"
proof -
  have "of_int e \<le> log 2 x" using assms(1,2) by (simp add: le_log_iff)
  moreover have "log 2 x < of_int (e + 1)" using assms(1,3) by (simp add: log_less_iff)
  ultimately have "\<lfloor>log 2 x\<rfloor> = e" by (simp add: floor_eq_iff)
  then show ?thesis using assms(1) by (simp add: round_double_def Let_def)
qed


text \<open>The numbers of the example below are floating-point numbers: rounding leaves
  them as they are. The second is the floating-point number nearest to 0.1.\<close>

lemma round_double_three: "round_double 3 = 3"
proof -
  have "round_double 3 =
      of_int (round_half_even (3 / 2 powr of_int (1 - 52))) * 2 powr of_int (1 - 52)"
    by (rule round_double_between) simp_all
  also have "2 powr of_int (1 - 52) = (1 / 2 ^ 51 :: real)"
    by (simp add: powr_minus_divide)
  also have "round_half_even (3 / (1 / 2 ^ 51)) = 6755399441055744"
    by (simp add: round_half_even_def Let_def)
  finally show ?thesis by simp
qed

lemma round_double_tenth:
  "round_double (3602879701896397 / 2 ^ 55) = 3602879701896397 / 2 ^ 55"
proof -
  have "round_double (3602879701896397 / 2 ^ 55) =
      of_int (round_half_even (3602879701896397 / 2 ^ 55 / 2 powr of_int (- 4 - 52)))
        * 2 powr of_int (- 4 - 52)"
    by (rule round_double_between) (simp_all add: powr_minus_divide)
  also have "2 powr of_int (- 4 - 52) = (1 / 2 ^ 56 :: real)"
    by (simp add: powr_minus_divide)
  also have "round_half_even (3602879701896397 / 2 ^ 55 / (1 / 2 ^ 56)) = 7205759403792794"
    by (simp add: round_half_even_def Let_def)
  finally show ?thesis by simp
qed

text \<open>\<^verbatim>\<open>3.0 * 0.1\<close> is \<^verbatim>\<open>0.30000000000000004\<close> (a tie, rounded to the even significand), and
  that divided by \<^verbatim>\<open>3.0\<close> is \<^verbatim>\<open>0.10000000000000002\<close>, the floating-point number after 0.1.\<close>

lemma float_times_three_tenth:
  "float_times 3 (3602879701896397 / 2 ^ 55) = 5404319552844596 / 2 ^ 54"
proof -
  have "round_double (3 * (3602879701896397 / 2 ^ 55)) =
      of_int (round_half_even (3 * (3602879701896397 / 2 ^ 55) / 2 powr of_int (- 2 - 52)))
        * 2 powr of_int (- 2 - 52)"
    by (rule round_double_between) (simp_all add: powr_minus_divide)
  also have "2 powr of_int (- 2 - 52) = (1 / 2 ^ 54 :: real)"
    by (simp add: powr_minus_divide)
  also have "round_half_even (3 * (3602879701896397 / 2 ^ 55) / (1 / 2 ^ 54)) =
      5404319552844596"
    by (simp add: round_half_even_def Let_def)
  finally show ?thesis by (simp add: float_times_def)
qed

lemma float_over_three:
  "float_over (5404319552844596 / 2 ^ 54) 3 = 7205759403792795 / 2 ^ 56"
proof -
  have "round_double (5404319552844596 / 2 ^ 54 / 3) =
      of_int (round_half_even (5404319552844596 / 2 ^ 54 / 3 / 2 powr of_int (- 4 - 52)))
        * 2 powr of_int (- 4 - 52)"
    by (rule round_double_between) (simp_all add: powr_minus_divide)
  also have "2 powr of_int (- 4 - 52) = (1 / 2 ^ 56 :: real)"
    by (simp add: powr_minus_divide)
  also have "round_half_even (5404319552844596 / 2 ^ 54 / 3 / (1 / 2 ^ 56)) =
      7205759403792795"
    by (simp add: round_half_even_def Let_def)
  finally show ?thesis by (simp add: float_over_def)
qed

text \<open>
  Claim C10, as stated: where the inflation of the base date 2021-12-31 is defined and
  not zero, the adjusted value at the base date equals the nominal value exactly. In the
  floating-point arithmetic of the frame it fails: with inflation 3.0 and a price of 0.1
  at the base date, the adjusted price is \<^verbatim>\<open>3.0 * 0.1 / 3.0 = 0.10000000000000002\<close>.
\<close>

theorem cheddar_i_adjust_float_not_exact:
  "loc [(''2021-12-31'', \<lparr>inflation = 3, cheddar = 3602879701896397 / 2 ^ 55\<rparr>)] ''2021-12-31''
     = Inr \<lparr>inflation = 3, cheddar = 3602879701896397 / 2 ^ 55\<rparr>
   \<and> round_double 3 = 3
   \<and> round_double (3602879701896397 / 2 ^ 55) = 3602879701896397 / 2 ^ 55
   \<and> cheddar_i_adjust float_times float_over
       [(''2021-12-31'', \<lparr>inflation = 3, cheddar = 3602879701896397 / 2 ^ 55\<rparr>)]
     = Inr [(''2021-12-31'', 7205759403792795 / 2 ^ 56)]
   \<and> (7205759403792795 / 2 ^ 56 :: real) \<noteq> 3602879701896397 / 2 ^ 55"
proof -
  have l: "loc [(''2021-12-31'', \<lparr>inflation = 3, cheddar = 3602879701896397 / 2 ^ 55\<rparr>)]
      ''2021-12-31'' = Inr \<lparr>inflation = 3, cheddar = 3602879701896397 / 2 ^ 55\<rparr>"
    by (simp add: loc_def)
  have "cheddar_i_adjust float_times float_over
      [(''2021-12-31'', \<lparr>inflation = 3, cheddar = 3602879701896397 / 2 ^ 55\<rparr>)]
    = Inr [(''2021-12-31'', float_over (float_times 3 (3602879701896397 / 2 ^ 55)) 3)]"
    unfolding cheddar_i_adjust_def l by simp
  then have adj: "cheddar_i_adjust float_times float_over
      [(''2021-12-31'', \<lparr>inflation = 3, cheddar = 3602879701896397 / 2 ^ 55\<rparr>)]
    = Inr [(''2021-12-31'', 7205759403792795 / 2 ^ 56)]"
    by (simp only: float_times_three_tenth float_over_three)
  have ne: "(7205759403792795 / 2 ^ 56 :: real) \<noteq> 3602879701896397 / 2 ^ 55"
    by simp
  from l round_double_three round_double_tenth adj ne show ?thesis
    by (intro conjI)
qed

lemma map_of_adjusted:
  "map_of (map (\<lambda>(label, r). (label, f r)) cdf) k = map_option f (map_of cdf k)"
  by (induction cdf) auto

lemma loc_Inr: "loc cdf k = Inr r \<longleftrightarrow> map_of cdf k = Some r"
  by (simp add: loc_def split: option.splits)

text \<open>
  Claim C10, amended. Where the inflation of the base date 2021-12-31 is defined and not
  zero, the adjustment \<open>inflation(base) * cheddar(t) / inflation(t)\<close> gives, at the base
  date, the nominal value itself in exact arithmetic; in floating-point arithmetic
  (overflow and subnormal numbers apart) it gives a value within the fraction
  \<open>2\<^sup>-\<^sup>5\<^sup>2 + 2\<^sup>-\<^sup>1\<^sup>0\<^sup>6\<close> of the nominal value.
\<close>

theorem cheddar_i_adjust_at_base:
  assumes "loc cdf ''2021-12-31'' = Inr base" and "inflation base \<noteq> 0"
  shows "(\<exists>adj. cheddar_i_adjust (*) (/) cdf = Inr adj
            \<and> map_of adj ''2021-12-31'' = Some (cheddar base))
       \<and> (\<exists>adj v. cheddar_i_adjust float_times float_over cdf = Inr adj
            \<and> map_of adj ''2021-12-31'' = Some v
            \<and> \<bar>v - cheddar base\<bar> \<le> \<bar>cheddar base\<bar> * (2 / 2 ^ 53 + 1 / 2 ^ 106))"
proof (intro conjI)
  have at: "map_of cdf ''2021-12-31'' = Some base"
    using assms(1) by (simp add: loc_Inr)
  show "\<exists>adj. cheddar_i_adjust (*) (/) cdf = Inr adj
      \<and> map_of adj ''2021-12-31'' = Some (cheddar base)"
    using assms at by (simp add: cheddar_i_adjust_def map_of_adjusted)
  define a where "a = inflation base"
  define c where "c = cheddar base"
  define p where "p = round_double (a * c)"
  define q where "q = p / a"
  define v where "v = round_double q"
  have a0: "a \<noteq> 0" using assms(2) by (simp add: a_def)
  have "\<bar>p - a * c\<bar> \<le> \<bar>a * c\<bar> / 2 ^ 53"
    unfolding p_def by (rule round_double_error)
  then have "\<bar>p - a * c\<bar> / \<bar>a\<bar> \<le> \<bar>a * c\<bar> / 2 ^ 53 / \<bar>a\<bar>"
    by (rule divide_right_mono) simp
  moreover have "\<bar>p - a * c\<bar> / \<bar>a\<bar> = \<bar>q - c\<bar>"
    using a0 by (simp add: q_def diff_divide_distrib flip: abs_divide)
  moreover have "\<bar>a * c\<bar> / 2 ^ 53 / \<bar>a\<bar> = \<bar>c\<bar> / 2 ^ 53"
    using a0 by (simp add: abs_mult)
  ultimately have qc: "\<bar>q - c\<bar> \<le> \<bar>c\<bar> / 2 ^ 53" by simp
  then have qb: "\<bar>q\<bar> \<le> \<bar>c\<bar> + \<bar>c\<bar> / 2 ^ 53" by linarith
  have "\<bar>v - q\<bar> \<le> \<bar>q\<bar> / 2 ^ 53"
    unfolding v_def by (rule round_double_error)
  also have "\<dots> \<le> (\<bar>c\<bar> + \<bar>c\<bar> / 2 ^ 53) / 2 ^ 53"
    using qb by (rule divide_right_mono) simp
  finally have "\<bar>v - q\<bar> \<le> (\<bar>c\<bar> + \<bar>c\<bar> / 2 ^ 53) / 2 ^ 53" .
  then have "\<bar>v - c\<bar> \<le> (\<bar>c\<bar> + \<bar>c\<bar> / 2 ^ 53) / 2 ^ 53 + \<bar>c\<bar> / 2 ^ 53"
    using qc by linarith
  also have "\<dots> = \<bar>c\<bar> * (2 / 2 ^ 53 + 1 / 2 ^ 106)"
    by (simp add: field_simps)
  finally have bound: "\<bar>v - c\<bar> \<le> \<bar>c\<bar> * (2 / 2 ^ 53 + 1 / 2 ^ 106)" .
  have "cheddar_i_adjust float_times float_over cdf =
      Inr (map (\<lambda>(label, r). (label, float_over (float_times a (cheddar r)) (inflation r))) cdf)"
    using assms(1) by (simp add: cheddar_i_adjust_def a_def)
  moreover have "map_of (map (\<lambda>(label, r).
      (label, float_over (float_times a (cheddar r)) (inflation r))) cdf) ''2021-12-31'' = Some v"
    using at by (simp add: map_of_adjusted v_def q_def p_def a_def c_def float_over_def
        float_times_def)
  ultimately show "\<exists>adj v. cheddar_i_adjust float_times float_over cdf = Inr adj
      \<and> map_of adj ''2021-12-31'' = Some v
      \<and> \<bar>v - cheddar base\<bar> \<le> \<bar>cheddar base\<bar> * (2 / 2 ^ 53 + 1 / 2 ^ 106)"
    using bound by (auto simp add: c_def)
qed

theorem cheddar_i_adjust_at_base_witness:
  "loc [(''2020-12-31'', \<lparr>inflation = 110, cheddar = 5\<rparr>),
        (''2021-12-31'', \<lparr>inflation = 112, cheddar = 6\<rparr>)] ''2021-12-31''
     = Inr \<lparr>inflation = 112, cheddar = 6\<rparr>
   \<and> inflation \<lparr>inflation = 112, cheddar = 6\<rparr> \<noteq> 0
   \<and> (\<exists>adj. cheddar_i_adjust (*) (/)
         [(''2020-12-31'', \<lparr>inflation = 110, cheddar = 5\<rparr>),
          (''2021-12-31'', \<lparr>inflation = 112, cheddar = 6\<rparr>)] = Inr adj
        \<and> map_of adj ''2021-12-31'' = Some 6)"
proof -
  have l: "loc [(''2020-12-31'', \<lparr>inflation = 110, cheddar = 5\<rparr>),
        (''2021-12-31'', \<lparr>inflation = 112, cheddar = 6\<rparr>)] ''2021-12-31''
     = Inr \<lparr>inflation = 112, cheddar = 6\<rparr>"
    by (simp add: loc_def)
  have n: "inflation \<lparr>inflation = 112, cheddar = 6\<rparr> \<noteq> 0" by simp
  from cheddar_i_adjust_at_base [OF l n] l n show ?thesis by simp
qed

end
